theory Spec2Isabelle
  imports Complex_Main
begin

section \<open>The trading bot orchestrator (src/core/trading\_bot.py)\<close>

text \<open>
  The orchestrator is embedded by explicit state passing. A method of \<open>TradingBot\<close>
  becomes a function from the bot to the bot. Everything the orchestrator asks of a
  collaborator (exchange, market-data feed, risk manager, pair manager, file system,
  logger) is appended to the field \<open>trace\<close>, in program order; what the collaborator
  answers is read from an environment \<open>Env\<close>, which is a parameter of every method.
  Exceptions are values. A synchronous call answers with a value or with an exception
  of class \<open>Exception\<close> (\<open>Gives\<close>, \<open>Fails\<close>). An awaited call is a point where the
  coroutine can be suspended; it returns, raises an exception of class \<open>Exception\<close>, or
  the task is cancelled while it waits and \<open>asyncio.CancelledError\<close> is raised there
  (\<open>Returns\<close>, \<open>Raises\<close>, \<open>CancelledError\<close>). \<open>CancelledError\<close> derives from
  \<open>BaseException\<close>: the handlers of the source, all \<open>except Exception\<close>, do not catch
  it. Floats are modelled as reals and \<open>datetime\<close> values as seconds on the local
  clock.
\<close>

subsection \<open>Data model\<close>

datatype BotState = INITIALIZING | RUNNING | PAUSED | STOPPING | STOPPED | ERROR

datatype DataType = TICKER | TRADES | ORDERBOOK

datatype exn = Exception string

text \<open>The answer of a synchronous call.\<close>

datatype 'a answer = Gives 'a | Fails exn

text \<open>The outcome of an awaited call, and of a coroutine of the bot.\<close>

datatype 'a result = Returns 'a | Raises exn | CancelledError

fun str :: "exn \<Rightarrow> string" where
  "str (Exception m) = m"

type_synonym datetime = int

definition date :: "datetime \<Rightarrow> int" where
  "date t = t div 86400"

type_synonym payload = string

record BotStatus =
  state :: BotState
  start_time :: datetime
  last_update :: datetime
  total_trades :: int
  open_positions :: int
  total_pnl :: real
  daily_pnl :: real
  errors :: "string list"
  metrics :: "string \<rightharpoonup> int"

record MarketUpdate =
  symbol :: string
  data_type :: DataType
  data :: payload
  latency_ms :: real

record RiskMetrics =
  current_drawdown :: real
  risk_daily_pnl :: real

record WsMetrics =
  connected :: bool
  avg_latency_ms :: real

record PerfSummary =
  perf_total_trades :: int
  perf_total_pnl :: real
  perf_win_rate :: real

record PerfData =
  last_trade :: "datetime option"
  pnl :: real

text \<open>The dictionary written to \<open>data/bot_state.json\<close> by \<open>_save_state\<close>.\<close>

record Snapshot =
  snap_timestamp :: datetime
  snap_state :: BotState
  snap_total_trades :: int
  snap_open_positions :: int
  snap_total_pnl :: real
  snap_daily_pnl :: real
  snap_positions :: payload
  snap_errors :: "string list"

text \<open>
  The configuration entries the orchestrator reads. An entry read with
  \<open>config.get(key, default)\<close> is an option, \<open>None\<close> when the key is absent.
\<close>

record Config =
  exchange_name :: string
  api_key :: string
  api_secret :: string
  pairs :: "string list"
  initial_balance :: real
  scan_interval :: "real option"
  strategy_interval :: "real option"
  cfg_save_state :: "bool option"
  close_on_pause :: "bool option"

datatype level = DEBUG | INFO | WARNING | LERROR

text \<open>One constructor for each log call of the source, with the values it formats.\<close>

datatype log_msg =
    InitComponents | InitSuccess | InitError string
  | SubscribedFeeds nat
  | HighLatencyDetected real string
  | UpdateProcessingError string string
  | CannotStart BotState
  | StartingBot
  | MainLoopStarted | MainLoopError string | MainLoopFinished
  | TaskCancelled string | TaskError string string
  | MarketScanRunning | MarketScannerError string
  | SignalsDetected nat | StrategyLoopError string
  | HighDrawdown real | CriticalDrawdown | HighDailyLoss real
  | TrailingStopUpdated string real | RiskMonitorError string
  | PerformanceReport int real real real | PerformanceTrackerError string
  | WebSocketDisconnected | HighAverageLatency real | ExchangeDisconnected
  | HealthCheckError string
  | TradingPaused
  | DailyReset
  | StateSaved | SaveStateError string
  | ShutdownInProgress | StoppedCleanly | ShutdownError string

datatype task = Scanner | Strategy | RiskMonitor | Performance | HealthCheck

text \<open>
  What the orchestrator does to the outside: a log line, a call of a collaborator's
  method, a read of a collaborator's attribute, a write into a collaborator's data.
  \<open>ExchangeConnect\<close> carries the credentials passed (\<open>initialize\<close> passes them, the
  health check passes none).
\<close>

datatype event =
    Logged level log_msg
  | NewExchange | NewFeed | NewRiskManager | NewMarketData | NewWatchlistScanner
  | NewPairManager
  | ExchangeConnect "(string \<times> string) option"
  | ExchangeConnected
  | ExchangeClose
  | FeedConnect
  | FeedDisconnect
  | FeedSubscribe string "DataType list"
  | FeedGetMetrics
  | FeedGetTicker string
  | MarketDataInitialize "string list"
  | MarketDataUpdateAll
  | SetTickerCache string payload
  | UpdateOrderbook string payload
  | UpdateWatchlist
  | GetRiskMetrics real
  | UpdateTrailingStop string real
  | ResetDailyCounters
  | PairUpdateMarketData
  | CheckSignals
  | ExecuteSignals nat
  | PositionsRead
  | SetStopLoss string real
  | CloseAllPositions string
  | GetPerformanceSummary
  | PerformanceRead
  | GetPositions
  | WriteSnapshot Snapshot
  | CreateMainTask
  | Sleep real

text \<open>
  The answers of the collaborators during one invocation (one call of a method, one
  cycle of a loop). \<open>get_ticker\<close> is \<open>Some last\<close> for a ticker that is truthy and
  \<open>None\<close> otherwise; \<open>check_signals\<close> is the number of signals returned;
  \<open>write_file\<close> stands for creating the directory, opening the file and dumping the
  JSON document. The fields of type \<open>result\<close> are the calls the source awaits;
  \<open>sleep_cancelled\<close> says that the task is cancelled while it waits in
  \<open>asyncio.sleep\<close>.
\<close>

record Env =
  now :: datetime
  new_component :: "event \<Rightarrow> unit answer"
  exchange_connect :: "bool result"
  exchange_connected :: "bool answer"
  exchange_close :: "unit result"
  feed_connect :: "bool result"
  feed_disconnect :: "unit result"
  feed_subscribe :: "string \<Rightarrow> unit answer"
  get_metrics :: "WsMetrics answer"
  get_ticker :: "string \<Rightarrow> real option answer"
  market_data_initialize :: "unit result"
  update_all :: "unit result"
  set_ticker_cache :: "unit answer"
  update_orderbook :: "unit answer"
  update_watchlist :: "unit result"
  get_risk_metrics :: "RiskMetrics answer"
  update_trailing_stop :: "string \<Rightarrow> real \<Rightarrow> real option answer"
  reset_daily_counters :: "unit answer"
  update_market_data :: "unit result"
  check_signals :: "nat result"
  execute_signals :: "unit result"
  positions_items :: "string list answer"
  close_all_positions :: "unit result"
  get_performance_summary :: "PerfSummary answer"
  performance_items :: "(string \<times> PerfData) list answer"
  get_positions :: "payload answer"
  write_file :: "Snapshot \<Rightarrow> unit answer"
  sleep_cancelled :: bool

text \<open>
  The bot. \<open>has_exchange\<close>, \<open>has_websocket_feed\<close> and \<open>has_pair_manager\<close> say
  that the optional component is set (truthy); \<open>tasks\<close> is the set \<open>_tasks\<close> of live
  monitored tasks; \<open>last_daily_reset\<close> is \<open>None\<close> while the attribute
  \<open>_last_daily_reset\<close> does not exist.
\<close>

record TradingBot =
  config :: Config
  status :: BotStatus
  has_exchange :: bool
  has_websocket_feed :: bool
  has_pair_manager :: bool
  main_task :: bool
  shutdown_event :: bool
  tasks :: "task list"
  last_daily_reset :: "datetime option"
  trace :: "event list"

subsection \<open>Plumbing: effects, sequencing, handlers\<close>

definition emit :: "event \<Rightarrow> TradingBot \<Rightarrow> TradingBot" where
  "emit ev b = b\<lparr>trace := trace b @ [ev]\<rparr>"

definition log_debug :: "log_msg \<Rightarrow> TradingBot \<Rightarrow> TradingBot" where
  "log_debug m = emit (Logged DEBUG m)"

definition log_info :: "log_msg \<Rightarrow> TradingBot \<Rightarrow> TradingBot" where
  "log_info m = emit (Logged INFO m)"

definition log_warning :: "log_msg \<Rightarrow> TradingBot \<Rightarrow> TradingBot" where
  "log_warning m = emit (Logged WARNING m)"

definition log_error :: "log_msg \<Rightarrow> TradingBot \<Rightarrow> TradingBot" where
  "log_error m = emit (Logged LERROR m)"

definition set_state :: "BotState \<Rightarrow> TradingBot \<Rightarrow> TradingBot" where
  "set_state s b = b\<lparr>status := (status b)\<lparr>state := s\<rparr>\<rparr>"

text \<open>
  A synchronous collaborator call: the call is recorded, its answer comes from the
  environment.
\<close>

definition call :: "event \<Rightarrow> 'a answer \<Rightarrow> TradingBot \<Rightarrow> 'a result \<times> TradingBot" where
  "call ev a b = (case a of Gives x \<Rightarrow> (Returns x, emit ev b) | Fails ex \<Rightarrow> (Raises ex, emit ev b))"

text \<open>\<open>await collaborator.method(...)\<close>\<close>

definition awaited :: "event \<Rightarrow> 'a result \<Rightarrow> TradingBot \<Rightarrow> 'a result \<times> TradingBot" where
  "awaited ev r b = (r, emit ev b)"

text \<open>\<open>await asyncio.sleep(d)\<close>\<close>

definition sleep :: "Env \<Rightarrow> real \<Rightarrow> TradingBot \<Rightarrow> unit result \<times> TradingBot" where
  "sleep e d b = (if sleep_cancelled e then CancelledError else Returns (), emit (Sleep d) b)"

definition ret :: "TradingBot \<Rightarrow> unit result \<times> TradingBot" where
  "ret b = (Returns (), b)"

text \<open>
  Statement sequencing: an exception or a cancellation skips the rest and keeps the
  state reached.
\<close>

definition then_do ::
  "'a result \<times> TradingBot \<Rightarrow> ('a \<Rightarrow> TradingBot \<Rightarrow> 'b result \<times> TradingBot)
    \<Rightarrow> 'b result \<times> TradingBot" where
  "then_do r f =
     (case r of
        (Returns x, b) \<Rightarrow> f x b
      | (Raises ex, b) \<Rightarrow> (Raises ex, b)
      | (CancelledError, b) \<Rightarrow> (CancelledError, b))"

text \<open>\<open>try: ... except Exception as e: ...\<close>: a cancellation is not caught.\<close>

definition try_except ::
  "'a result \<times> TradingBot \<Rightarrow> (exn \<Rightarrow> TradingBot \<Rightarrow> 'a result \<times> TradingBot)
    \<Rightarrow> 'a result \<times> TradingBot" where
  "try_except r h =
     (case r of
        (Returns x, b) \<Rightarrow> (Returns x, b)
      | (Raises ex, b) \<Rightarrow> h ex b
      | (CancelledError, b) \<Rightarrow> (CancelledError, b))"

subsection \<open>Persistence: \<open>_save_state\<close>\<close>

text \<open>\<open>errors[-10:]\<close>\<close>

definition last_n :: "nat \<Rightarrow> 'a list \<Rightarrow> 'a list" where
  "last_n n xs = drop (length xs - n) xs"

definition make_snapshot :: "Env \<Rightarrow> TradingBot \<Rightarrow> payload \<Rightarrow> Snapshot" where
  "make_snapshot e b ps =
     \<lparr> snap_timestamp = now e,
       snap_state = state (status b),
       snap_total_trades = total_trades (status b),
       snap_open_positions = open_positions (status b),
       snap_total_pnl = total_pnl (status b),
       snap_daily_pnl = daily_pnl (status b),
       snap_positions = ps,
       snap_errors = last_n 10 (errors (status b)) \<rparr>"

text \<open>The body of the \<open>try\<close> of \<open>_save_state\<close>.\<close>

definition save_state_body :: "Env \<Rightarrow> TradingBot \<Rightarrow> unit result \<times> TradingBot" where
  "save_state_body e b =
     (if \<not> has_pair_manager b then ret b
      else
        then_do (call GetPositions (get_positions e) b) (\<lambda>ps b1.
        then_do (call (WriteSnapshot (make_snapshot e b ps))
                      (write_file e (make_snapshot e b ps)) b1) (\<lambda>_ b2.
        ret (log_debug StateSaved b2))))"

definition save_state :: "Env \<Rightarrow> TradingBot \<Rightarrow> unit result \<times> TradingBot" where
  "save_state e b =
     try_except (save_state_body e b)
       (\<lambda>ex b1. ret (log_error (SaveStateError (str ex)) b1))"

subsection \<open>Shutdown\<close>

text \<open>The body of the \<open>try\<close> of \<open>shutdown\<close>.\<close>

definition shutdown_body :: "Env \<Rightarrow> TradingBot \<Rightarrow> unit result \<times> TradingBot" where
  "shutdown_body e b =
     then_do (save_state e (set_state STOPPING (log_info ShutdownInProgress b))) (\<lambda>_ b1.
     then_do (if has_websocket_feed b1 then awaited FeedDisconnect (feed_disconnect e) b1
              else ret b1) (\<lambda>_ b2.
     then_do (if has_exchange b2 then awaited ExchangeClose (exchange_close e) b2
              else ret b2) (\<lambda>_ b3.
     ret (log_info StoppedCleanly (set_state STOPPED b3)))))"

text \<open>
  \<open>shutdown\<close>: the handler sets \<open>ERROR\<close>; the \<open>finally\<close> sets the event, also when
  the invocation is cancelled in one of its two awaits.
\<close>

definition shutdown :: "Env \<Rightarrow> TradingBot \<Rightarrow> unit result \<times> TradingBot" where
  "shutdown e b =
     (case try_except (shutdown_body e b)
             (\<lambda>ex b1. ret (set_state ERROR (log_error (ShutdownError (str ex)) b1)))
      of (r, b2) \<Rightarrow> (r, b2\<lparr>shutdown_event := True\<rparr>))"

subsection \<open>The market update handler\<close>

text \<open>\<open>d.get(key, default)\<close> on a dictionary or on the configuration.\<close>

definition get_default :: "'a \<Rightarrow> 'a option \<Rightarrow> 'a" where
  "get_default d v = (case v of None \<Rightarrow> d | Some x \<Rightarrow> x)"

definition incr_ws_updates :: "TradingBot \<Rightarrow> TradingBot" where
  "incr_ws_updates b =
     b\<lparr>status := (status b)\<lparr>metrics := (metrics (status b))
        (''ws_updates'' \<mapsto> get_default 0 (metrics (status b) ''ws_updates'') + 1)\<rparr>\<rparr>"

definition handle_market_update_body ::
  "Env \<Rightarrow> MarketUpdate \<Rightarrow> TradingBot \<Rightarrow> unit result \<times> TradingBot" where
  "handle_market_update_body e u b =
     then_do (if data_type u = TICKER
              then call (SetTickerCache (symbol u) (data u)) (set_ticker_cache e) b
              else if data_type u = ORDERBOOK
              then call (UpdateOrderbook (symbol u) (data u)) (update_orderbook e) b
              else ret b) (\<lambda>_ b1.
     ret (incr_ws_updates
            (if latency_ms u > 200
             then log_warning (HighLatencyDetected (latency_ms u) (symbol u)) b1
             else b1)))"

definition handle_market_update ::
  "Env \<Rightarrow> MarketUpdate \<Rightarrow> TradingBot \<Rightarrow> unit result \<times> TradingBot" where
  "handle_market_update e u b =
     try_except (handle_market_update_body e u b)
       (\<lambda>ex b1. ret (log_error (UpdateProcessingError (symbol u) (str ex)) b1))"

subsection \<open>Start, the main loop and the monitored tasks\<close>

text \<open>
  \<open>start\<close> up to its \<open>await self._shutdown_event.wait()\<close>: the guard, the
  transition and the creation of the main task.
\<close>

definition start :: "Env \<Rightarrow> TradingBot \<Rightarrow> TradingBot" where
  "start e b =
     (if state (status b) \<notin> set [STOPPED, ERROR]
      then log_warning (CannotStart (state (status b))) b
      else
        emit CreateMainTask
          ((log_info StartingBot b)
             \<lparr>status := (status b)\<lparr>state := RUNNING, start_time := now e\<rparr>,
              main_task := True\<rparr>))"

fun task_name :: "task \<Rightarrow> string" where
  "task_name Scanner = ''Scanner''"
| "task_name Strategy = ''Strategy''"
| "task_name RiskMonitor = ''Risk Monitor''"
| "task_name Performance = ''Performance''"
| "task_name HealthCheck = ''Health Check''"

text \<open>\<open>_create_monitored_task\<close>: the task joins \<open>_tasks\<close>.\<close>

definition create_monitored_task :: "task \<Rightarrow> TradingBot \<Rightarrow> TradingBot" where
  "create_monitored_task t b = b\<lparr>tasks := List.insert t (tasks b)\<rparr>"

text \<open>The first step of \<open>_main_loop\<close>: the five loops are created, in this order.\<close>

definition main_loop :: "TradingBot \<Rightarrow> TradingBot" where
  "main_loop b =
     fold create_monitored_task [Scanner, Strategy, RiskMonitor, Performance, HealthCheck]
       (log_info MainLoopStarted b)"

text \<open>How the coroutine wrapped by \<open>monitored\<close> ended.\<close>

datatype ending = Completed | Cancelled | Failed exn

text \<open>
  The end of a monitored task: a cancellation is logged and re-raised, any other
  exception is logged and appended to \<open>errors\<close>; the done-callback discards the task.
\<close>

definition monitored_end :: "task \<Rightarrow> ending \<Rightarrow> TradingBot \<Rightarrow> TradingBot" where
  "monitored_end t r b =
     (let b1 = (case r of
                  Completed \<Rightarrow> b
                | Cancelled \<Rightarrow> log_info (TaskCancelled (task_name t)) b
                | Failed ex \<Rightarrow>
                    (let b0 = log_error (TaskError (task_name t) (str ex)) b
                     in b0\<lparr>status := (status b0)
                          \<lparr>errors := errors (status b0) @ [task_name t @ '': '' @ str ex]\<rparr>\<rparr>))
      in b1\<lparr>tasks := removeAll t (tasks b1)\<rparr>)"

subsection \<open>Market scanner and strategy loops\<close>

definition market_scanner_alive :: "TradingBot \<Rightarrow> bool" where
  "market_scanner_alive b = (\<not> shutdown_event b)"

definition market_scanner_body :: "Env \<Rightarrow> TradingBot \<Rightarrow> unit result \<times> TradingBot" where
  "market_scanner_body e b =
     then_do (awaited UpdateWatchlist (update_watchlist e) (log_debug MarketScanRunning b)) (\<lambda>_ b1.
     then_do (awaited MarketDataUpdateAll (update_all e) b1) (\<lambda>_ b2.
     sleep e (get_default 300 (scan_interval (config b2))) b2))"

definition market_scanner_cycle :: "Env \<Rightarrow> TradingBot \<Rightarrow> unit result \<times> TradingBot" where
  "market_scanner_cycle e b =
     try_except (market_scanner_body e b)
       (\<lambda>ex b1. sleep e 60 (log_error (MarketScannerError (str ex)) b1))"

definition strategy_alive :: "TradingBot \<Rightarrow> bool" where
  "strategy_alive b = (state (status b) = RUNNING)"

definition strategy_body :: "Env \<Rightarrow> TradingBot \<Rightarrow> unit result \<times> TradingBot" where
  "strategy_body e b =
     then_do (awaited PairUpdateMarketData (update_market_data e) b) (\<lambda>_ b1.
     then_do (awaited CheckSignals (check_signals e) b1) (\<lambda>n b2.
     then_do (if n \<noteq> 0
              then awaited (ExecuteSignals n) (execute_signals e) (log_info (SignalsDetected n) b2)
              else ret b2) (\<lambda>_ b3.
     then_do (call PositionsRead (positions_items e) b3) (\<lambda>ps b4.
     sleep e (get_default 60 (strategy_interval (config b4)))
       (b4\<lparr>status := (status b4)
            \<lparr>open_positions := int (length ps), last_update := now e\<rparr>\<rparr>)))))"

definition strategy_cycle :: "Env \<Rightarrow> TradingBot \<Rightarrow> unit result \<times> TradingBot" where
  "strategy_cycle e b =
     try_except (strategy_body e b)
       (\<lambda>ex b1. sleep e 10 (log_error (StrategyLoopError (str ex)) b1))"

subsection \<open>Risk monitor loop and the circuit breaker\<close>

definition pause_trading :: "Env \<Rightarrow> TradingBot \<Rightarrow> unit result \<times> TradingBot" where
  "pause_trading e b =
     (let b1 = log_warning TradingPaused (set_state PAUSED b)
      in if get_default False (close_on_pause (config b1))
         then awaited (CloseAllPositions ''Protection drawdown'') (close_all_positions e) b1
         else ret b1)"

text \<open>
  The loop over \<open>pair_manager.positions.items()\<close>; a new stop is stored when it is
  truthy (not \<open>None\<close> and not zero).
\<close>

fun trailing_stops :: "Env \<Rightarrow> string list \<Rightarrow> TradingBot \<Rightarrow> unit result \<times> TradingBot" where
  "trailing_stops e [] b = ret b"
| "trailing_stops e (s # ss) b =
     then_do (call (FeedGetTicker s) (get_ticker e s) b) (\<lambda>ticker b1.
     then_do (case ticker of
                None \<Rightarrow> ret b1
              | Some price \<Rightarrow>
                  then_do (call (UpdateTrailingStop s price) (update_trailing_stop e s price) b1)
                    (\<lambda>new_stop b2.
                       (case new_stop of
                          None \<Rightarrow> ret b2
                        | Some v \<Rightarrow>
                            if v \<noteq> 0
                            then ret (log_debug (TrailingStopUpdated s v) (emit (SetStopLoss s v) b2))
                            else ret b2))) (\<lambda>_ b3.
     trailing_stops e ss b3))"

definition risk_monitor_alive :: "TradingBot \<Rightarrow> bool" where
  "risk_monitor_alive b = (state (status b) = RUNNING)"

definition risk_monitor_body :: "Env \<Rightarrow> TradingBot \<Rightarrow> unit result \<times> TradingBot" where
  "risk_monitor_body e b =
     then_do (call (GetRiskMetrics (initial_balance (config b))) (get_risk_metrics e) b) (\<lambda>rm b1.
     then_do (if current_drawdown rm > 0.15
              then (let b2 = log_warning (HighDrawdown (current_drawdown rm)) b1
                    in if current_drawdown rm > 0.20
                       then pause_trading e (log_error CriticalDrawdown b2)
                       else ret b2)
              else ret b1) (\<lambda>_ b3.
     then_do (call PositionsRead (positions_items e)
                (if risk_daily_pnl rm > 0.05
                 then log_warning (HighDailyLoss (risk_daily_pnl rm)) b3
                 else b3)) (\<lambda>ps b4.
     then_do (trailing_stops e ps b4) (\<lambda>_ b5.
     sleep e 30 b5))))"

definition risk_monitor_cycle :: "Env \<Rightarrow> TradingBot \<Rightarrow> unit result \<times> TradingBot" where
  "risk_monitor_cycle e b =
     try_except (risk_monitor_body e b)
       (\<lambda>ex b1. sleep e 60 (log_error (RiskMonitorError (str ex)) b1))"

subsection \<open>Performance tracker loop\<close>

text \<open>
  \<open>_calculate_daily_pnl\<close>: a tenth of the P\&L of every pair traded within the
  last day.
\<close>

definition daily_pnl_of :: "datetime \<Rightarrow> (string \<times> PerfData) list \<Rightarrow> real" where
  "daily_pnl_of t items =
     fold (\<lambda>(s, d) acc.
             (case last_trade d of
                None \<Rightarrow> acc
              | Some lt \<Rightarrow> if t - lt < 86400 then acc + pnl d * 0.1 else acc))
          items 0"

definition calculate_daily_pnl :: "Env \<Rightarrow> TradingBot \<Rightarrow> real result \<times> TradingBot" where
  "calculate_daily_pnl e b =
     then_do (call PerformanceRead (performance_items e) b) (\<lambda>items b1.
     (Returns (daily_pnl_of (now e) items), b1))"

definition performance_tracker_alive :: "TradingBot \<Rightarrow> bool" where
  "performance_tracker_alive b = (state (status b) = RUNNING)"

definition performance_tracker_body :: "Env \<Rightarrow> TradingBot \<Rightarrow> unit result \<times> TradingBot" where
  "performance_tracker_body e b =
     then_do (call GetPerformanceSummary (get_performance_summary e) b) (\<lambda>perf b1.
     then_do (calculate_daily_pnl e
                (b1\<lparr>status := (status b1)
                     \<lparr>total_trades := perf_total_trades perf,
                      total_pnl := perf_total_pnl perf\<rparr>\<rparr>)) (\<lambda>d b2.
     then_do (let b3 = b2\<lparr>status := (status b2)\<lparr>daily_pnl := d\<rparr>\<rparr>;
                  b4 = (if perf_total_trades perf > 0
                        then log_info (PerformanceReport (perf_total_trades perf)
                               (perf_win_rate perf) (perf_total_pnl perf) d) b3
                        else b3)
              in if get_default True (cfg_save_state (config b4))
                 then save_state e b4
                 else ret b4) (\<lambda>_ b5.
     sleep e 300 b5)))"

definition performance_tracker_cycle :: "Env \<Rightarrow> TradingBot \<Rightarrow> unit result \<times> TradingBot" where
  "performance_tracker_cycle e b =
     try_except (performance_tracker_body e b)
       (\<lambda>ex b1. sleep e 300 (log_error (PerformanceTrackerError (str ex)) b1))"

subsection \<open>Health check loop\<close>

definition check_daily_reset :: "Env \<Rightarrow> TradingBot \<Rightarrow> unit result \<times> TradingBot" where
  "check_daily_reset e b =
     (case last_daily_reset b of
        Some t \<Rightarrow>
          if date (now e) > date t
          then then_do (call ResetDailyCounters (reset_daily_counters e) (log_info DailyReset b))
                 (\<lambda>_ b1. ret (b1\<lparr>last_daily_reset := Some (now e)\<rparr>))
          else ret b
      | None \<Rightarrow> ret (b\<lparr>last_daily_reset := Some (now e)\<rparr>))"

text \<open>\<open>if len(errors) > 100: errors = errors[-50:]\<close>\<close>

definition clean_errors :: "TradingBot \<Rightarrow> TradingBot" where
  "clean_errors b =
     (if length (errors (status b)) > 100
      then b\<lparr>status := (status b)\<lparr>errors := last_n 50 (errors (status b))\<rparr>\<rparr>
      else b)"

definition health_check_alive :: "TradingBot \<Rightarrow> bool" where
  "health_check_alive b = (state (status b) = RUNNING)"

definition health_check_body :: "Env \<Rightarrow> TradingBot \<Rightarrow> unit result \<times> TradingBot" where
  "health_check_body e b =
     then_do (call FeedGetMetrics (get_metrics e) b) (\<lambda>ws_metrics b1.
     then_do (if \<not> connected ws_metrics
              then awaited FeedConnect (feed_connect e) (log_error WebSocketDisconnected b1)
              else (Returns True, b1)) (\<lambda>_ b2.
     then_do (call ExchangeConnected (exchange_connected e)
                (if avg_latency_ms ws_metrics > 200
                 then log_warning (HighAverageLatency (avg_latency_ms ws_metrics)) b2
                 else b2)) (\<lambda>is_connected b3.
     then_do (if \<not> is_connected
              then awaited (ExchangeConnect None) (exchange_connect e)
                     (log_error ExchangeDisconnected b3)
              else (Returns True, b3)) (\<lambda>_ b4.
     then_do (check_daily_reset e (clean_errors b4)) (\<lambda>_ b5.
     sleep e 60 b5)))))"

definition health_check_cycle :: "Env \<Rightarrow> TradingBot \<Rightarrow> unit result \<times> TradingBot" where
  "health_check_cycle e b =
     try_except (health_check_body e b)
       (\<lambda>ex b1. sleep e 60 (log_error (HealthCheckError (str ex)) b1))"

subsection \<open>Initialisation\<close>

text \<open>\<open>_setup_websocket_subscriptions\<close>\<close>

fun subscribe_all :: "Env \<Rightarrow> string list \<Rightarrow> TradingBot \<Rightarrow> unit result \<times> TradingBot" where
  "subscribe_all e [] b = ret b"
| "subscribe_all e (s # ss) b =
     then_do (call (FeedSubscribe s [TICKER, TRADES, ORDERBOOK]) (feed_subscribe e s) b)
       (\<lambda>_ b1. subscribe_all e ss b1)"

definition setup_websocket_subscriptions ::
  "Env \<Rightarrow> string list \<Rightarrow> TradingBot \<Rightarrow> unit result \<times> TradingBot" where
  "setup_websocket_subscriptions e symbols b =
     then_do (subscribe_all e symbols b) (\<lambda>_ b1.
     ret (log_info (SubscribedFeeds (length symbols)) b1))"

text \<open>
  The body of the \<open>try\<close> of \<open>initialize\<close>. The two messages raised by the source
  are written without their accents.
\<close>

definition initialize_body :: "Env \<Rightarrow> TradingBot \<Rightarrow> bool result \<times> TradingBot" where
  "initialize_body e b =
     then_do (call NewExchange (new_component e NewExchange) (log_info InitComponents b)) (\<lambda>_ b1.
     then_do (awaited (ExchangeConnect (Some (api_key (config b1), api_secret (config b1))))
                (exchange_connect e) (b1\<lparr>has_exchange := True\<rparr>)) (\<lambda>ok b2.
     then_do (if \<not> ok then (Raises (Exception ''Echec de connexion a l exchange''), b2)
              else call NewFeed (new_component e NewFeed) b2) (\<lambda>_ b3.
     then_do (awaited FeedConnect (feed_connect e) (b3\<lparr>has_websocket_feed := True\<rparr>)) (\<lambda>ok b4.
     then_do (if \<not> ok then (Raises (Exception ''Echec de connexion WebSocket''), b4)
              else call NewRiskManager (new_component e NewRiskManager) b4) (\<lambda>_ b5.
     then_do (call NewMarketData (new_component e NewMarketData) b5) (\<lambda>_ b6.
     then_do (call NewWatchlistScanner (new_component e NewWatchlistScanner) b6) (\<lambda>_ b7.
     then_do (call NewPairManager (new_component e NewPairManager) b7) (\<lambda>_ b8.
     then_do (awaited (MarketDataInitialize (pairs (config b8))) (market_data_initialize e)
                (b8\<lparr>has_pair_manager := True\<rparr>)) (\<lambda>_ b9.
     then_do (setup_websocket_subscriptions e (pairs (config b9)) b9) (\<lambda>_ b10.
     (Returns True, log_info InitSuccess (set_state STOPPED b10))))))))))))"

definition initialize :: "Env \<Rightarrow> TradingBot \<Rightarrow> bool result \<times> TradingBot" where
  "initialize e b =
     try_except (initialize_body e b)
       (\<lambda>ex b1.
          (let b2 = set_state ERROR (log_error (InitError (str ex)) b1)
           in (Returns False,
               b2\<lparr>status := (status b2)\<lparr>errors := errors (status b2) @ [str ex]\<rparr>\<rparr>)))"

subsection \<open>The loops under the cooperative scheduler\<close>

fun alive :: "task \<Rightarrow> TradingBot \<Rightarrow> bool" where
  "alive Scanner b = market_scanner_alive b"
| "alive Strategy b = strategy_alive b"
| "alive RiskMonitor b = risk_monitor_alive b"
| "alive Performance b = performance_tracker_alive b"
| "alive HealthCheck b = health_check_alive b"

fun cycle :: "task \<Rightarrow> Env \<Rightarrow> TradingBot \<Rightarrow> unit result \<times> TradingBot" where
  "cycle Scanner e b = market_scanner_cycle e b"
| "cycle Strategy e b = strategy_cycle e b"
| "cycle RiskMonitor e b = risk_monitor_cycle e b"
| "cycle Performance e b = performance_tracker_cycle e b"
| "cycle HealthCheck e b = health_check_cycle e b"

text \<open>
  One turn of a loop, from the test of its \<open>while\<close> to the end of the sleep: a task
  that is not live does nothing; a live one whose condition holds runs one cycle, and
  an exception or a cancellation that leaves the cycle ends the task; a live one whose
  condition fails leaves its loop, the coroutine completes and the task is discarded.
\<close>

definition turn :: "task \<Rightarrow> Env \<Rightarrow> TradingBot \<Rightarrow> TradingBot" where
  "turn t e b =
     (if t \<notin> set (tasks b) then b
      else if alive t b
      then (case cycle t e b of
              (Returns _, b1) \<Rightarrow> b1
            | (Raises ex, b1) \<Rightarrow> monitored_end t (Failed ex) b1
            | (CancelledError, b1) \<Rightarrow> monitored_end t Cancelled b1)
      else monitored_end t Completed b)"

text \<open>A run of the scheduler: the turns taken, in order, each with its environment.\<close>

fun run :: "(task \<times> Env) list \<Rightarrow> TradingBot \<Rightarrow> TradingBot" where
  "run [] b = b"
| "run ((t, e) # sched) b = run sched (turn t e b)"

subsection \<open>Shutdown as a coroutine: two invocations interleaved\<close>

text \<open>
  The scheduling is cooperative: \<open>shutdown\<close> can be suspended only inside its awaits
  of the two collaborators (\<open>_save_state\<close> awaits nothing). A suspended invocation is
  at one of the points below; \<open>shutdown_resume\<close> runs it to its next suspension or to
  its end. An invocation resumed with \<open>CancelledError\<close> runs its \<open>finally\<close> only.
\<close>

datatype shutdown_pc = NotStarted | AwaitDisconnect | AwaitClose | Finished

definition shutdown_failed :: "exn \<Rightarrow> TradingBot \<Rightarrow> shutdown_pc \<times> TradingBot" where
  "shutdown_failed ex b =
     (Finished, (set_state ERROR (log_error (ShutdownError (str ex)) b))\<lparr>shutdown_event := True\<rparr>)"

definition shutdown_cancelled :: "TradingBot \<Rightarrow> shutdown_pc \<times> TradingBot" where
  "shutdown_cancelled b = (Finished, b\<lparr>shutdown_event := True\<rparr>)"

definition shutdown_stopped :: "TradingBot \<Rightarrow> shutdown_pc \<times> TradingBot" where
  "shutdown_stopped b =
     (Finished, (log_info StoppedCleanly (set_state STOPPED b))\<lparr>shutdown_event := True\<rparr>)"

definition shutdown_at_exchange :: "TradingBot \<Rightarrow> shutdown_pc \<times> TradingBot" where
  "shutdown_at_exchange b =
     (if has_exchange b then (AwaitClose, emit ExchangeClose b) else shutdown_stopped b)"

definition shutdown_at_feed :: "TradingBot \<Rightarrow> shutdown_pc \<times> TradingBot" where
  "shutdown_at_feed b =
     (if has_websocket_feed b then (AwaitDisconnect, emit FeedDisconnect b)
      else shutdown_at_exchange b)"

fun shutdown_resume :: "Env \<Rightarrow> shutdown_pc \<Rightarrow> TradingBot \<Rightarrow> shutdown_pc \<times> TradingBot" where
  "shutdown_resume e NotStarted b =
     (case save_state e (set_state STOPPING (log_info ShutdownInProgress b)) of
        (Returns _, b1) \<Rightarrow> shutdown_at_feed b1
      | (Raises ex, b1) \<Rightarrow> shutdown_failed ex b1
      | (CancelledError, b1) \<Rightarrow> shutdown_cancelled b1)"
| "shutdown_resume e AwaitDisconnect b =
     (case feed_disconnect e of
        Returns _ \<Rightarrow> shutdown_at_exchange b
      | Raises ex \<Rightarrow> shutdown_failed ex b
      | CancelledError \<Rightarrow> shutdown_cancelled b)"
| "shutdown_resume e AwaitClose b =
     (case exchange_close e of
        Returns _ \<Rightarrow> shutdown_stopped b
      | Raises ex \<Rightarrow> shutdown_failed ex b
      | CancelledError \<Rightarrow> shutdown_cancelled b)"
| "shutdown_resume e Finished b = (Finished, b)"

text \<open>
  Two invocations on the same bot, each with the answers it gets. The schedule says
  which one is resumed next (\<open>True\<close>: the first).
\<close>

fun interleave ::
  "bool list \<Rightarrow> Env \<Rightarrow> Env \<Rightarrow> shutdown_pc \<times> shutdown_pc \<times> TradingBot
    \<Rightarrow> shutdown_pc \<times> shutdown_pc \<times> TradingBot" where
  "interleave [] e1 e2 c = c"
| "interleave (first # sched) e1 e2 (p1, p2, b) =
     interleave sched e1 e2
       (if first then (case shutdown_resume e1 p1 b of (p, b1) \<Rightarrow> (p, p2, b1))
        else (case shutdown_resume e2 p2 b of (p, b1) \<Rightarrow> (p1, p, b1)))"

subsection \<open>Concrete bots and environments\<close>

definition config0 :: Config where
  "config0 =
     \<lparr> exchange_name = ''binance'', api_key = ''key'', api_secret = ''secret'',
       pairs = [''BTC/USDT''], initial_balance = 10000,
       scan_interval = None, strategy_interval = None,
       cfg_save_state = None, close_on_pause = Some True \<rparr>"

definition status0 :: BotStatus where
  "status0 =
     \<lparr> state = INITIALIZING, start_time = 0, last_update = 0, total_trades = 0,
       open_positions = 0, total_pnl = 0, daily_pnl = 0, errors = [],
       metrics = Map.empty \<rparr>"

text \<open>The bot as the constructor leaves it.\<close>

definition bot0 :: TradingBot where
  "bot0 =
     \<lparr> config = config0, status = status0, has_exchange = False,
       has_websocket_feed = False, has_pair_manager = False, main_task = False,
       shutdown_event = False, tasks = [], last_daily_reset = None, trace = [] \<rparr>"

text \<open>An environment in which every collaborator answers and nothing is wrong.\<close>

definition env0 :: Env where
  "env0 =
     \<lparr> now = 0,
       new_component = (\<lambda>_. Gives ()),
       exchange_connect = Returns True,
       exchange_connected = Gives True,
       exchange_close = Returns (),
       feed_connect = Returns True,
       feed_disconnect = Returns (),
       feed_subscribe = (\<lambda>_. Gives ()),
       get_metrics = Gives \<lparr>connected = True, avg_latency_ms = 50\<rparr>,
       get_ticker = (\<lambda>_. Gives None),
       market_data_initialize = Returns (),
       update_all = Returns (),
       set_ticker_cache = Gives (),
       update_orderbook = Gives (),
       update_watchlist = Returns (),
       get_risk_metrics = Gives \<lparr>current_drawdown = 0, risk_daily_pnl = 0\<rparr>,
       update_trailing_stop = (\<lambda>_ _. Gives None),
       reset_daily_counters = Gives (),
       update_market_data = Returns (),
       check_signals = Returns 0,
       execute_signals = Returns (),
       positions_items = Gives [],
       close_all_positions = Returns (),
       get_performance_summary =
         Gives \<lparr>perf_total_trades = 0, perf_total_pnl = 0, perf_win_rate = 0\<rparr>,
       performance_items = Gives [],
       get_positions = Gives ''{}'',
       write_file = (\<lambda>_. Gives ()),
       sleep_cancelled = False \<rparr>"

text \<open>The bot after a successful \<open>initialize\<close>, and after \<open>start\<close> and \<open>_main_loop\<close>.\<close>

definition bot_stopped :: TradingBot where
  "bot_stopped = snd (initialize env0 bot0)"

definition bot_running :: TradingBot where
  "bot_running = main_loop (start env0 bot_stopped)"

definition env_positions_fail :: Env where
  "env_positions_fail = env0\<lparr>get_positions := Fails (Exception ''positions unavailable'')\<rparr>"

definition env_write_fail :: Env where
  "env_write_fail = env0\<lparr>write_file := (\<lambda>_. Fails (Exception ''disk full''))\<rparr>"

definition env_close_fail :: Env where
  "env_close_fail = env0\<lparr>exchange_close := Raises (Exception ''close failed'')\<rparr>"

text \<open>How many resumptions an invocation still needs, at most.\<close>

fun pc_rank :: "shutdown_pc \<Rightarrow> nat" where
  "pc_rank NotStarted = 3" | "pc_rank AwaitDisconnect = 2" | "pc_rank AwaitClose = 1" | "pc_rank Finished = 0"

text \<open>Neither await of a \<open>shutdown\<close> that gets these answers is cancelled.\<close>

definition uncancelled :: "Env \<Rightarrow> bool" where
  "uncancelled e = (feed_disconnect e \<noteq> CancelledError \<and> exchange_close e \<noteq> CancelledError)"

text \<open>
  What holds of two interleaved invocations at every moment: once one of them has
  finished the event is set; once one of them has started the state is one that
  \<open>shutdown\<close> sets; and, when no await is cancelled (\<open>nc\<close>) and neither invocation is
  suspended in an await, the state is the one the last of them left.
\<close>

definition two_inv :: "bool \<Rightarrow> shutdown_pc \<Rightarrow> shutdown_pc \<Rightarrow> TradingBot \<Rightarrow> bool" where
  "two_inv nc p1 p2 b =
     ((p1 = Finished \<or> p2 = Finished \<longrightarrow> shutdown_event b)
   \<and> (p1 \<noteq> NotStarted \<or> p2 \<noteq> NotStarted \<longrightarrow> state (status b) \<in> {STOPPING, STOPPED, ERROR})
   \<and> (nc \<and> ((p1 = Finished \<and> p2 \<in> {NotStarted, Finished}) \<or> (p2 = Finished \<and> p1 \<in> {NotStarted, Finished}))
        \<longrightarrow> state (status b) \<in> {STOPPED, ERROR}))"

text \<open>
  What the two awaits of \<open>shutdown\<close> answer; a collaborator that is not set is not
  awaited.
\<close>

definition disconnect_outcome :: "Env \<Rightarrow> TradingBot \<Rightarrow> unit result" where
  "disconnect_outcome e b = (if has_websocket_feed b then feed_disconnect e else Returns ())"

definition close_outcome :: "Env \<Rightarrow> TradingBot \<Rightarrow> unit result" where
  "close_outcome e b = (if has_exchange b then exchange_close e else Returns ())"

definition env_disconnect_fail :: Env where
  "env_disconnect_fail = env0\<lparr>feed_disconnect := Raises (Exception ''disconnect failed'')\<rparr>"

definition env_disconnect_cancelled :: Env where
  "env_disconnect_cancelled = env0\<lparr>feed_disconnect := CancelledError\<rparr>"

definition env_close_cancelled :: Env where
  "env_close_cancelled = env0\<lparr>exchange_close := CancelledError\<rparr>"

text \<open>
  The cache update an update needs: the write into the ticker cache, the order-book
  hook, or nothing (a trades update); and what it answers.
\<close>

definition cache_update_event :: "MarketUpdate \<Rightarrow> event list" where
  "cache_update_event u =
     (if data_type u = TICKER then [SetTickerCache (symbol u) (data u)]
      else if data_type u = ORDERBOOK then [UpdateOrderbook (symbol u) (data u)]
      else [])"

definition cache_update_answer :: "Env \<Rightarrow> MarketUpdate \<Rightarrow> unit answer" where
  "cache_update_answer e u =
     (if data_type u = TICKER then set_ticker_cache e
      else if data_type u = ORDERBOOK then update_orderbook e
      else Gives ())"

definition env_orderbook_fail :: Env where
  "env_orderbook_fail = env0\<lparr>update_orderbook := Fails (Exception ''bad order book'')\<rparr>"

definition slow_orderbook_update :: MarketUpdate where
  "slow_orderbook_update =
     \<lparr>symbol = ''BTC/USDT'', data_type = ORDERBOOK, data = ''{}'', latency_ms = 250\<rparr>"

definition slow_ticker_update :: MarketUpdate where
  "slow_ticker_update =
     \<lparr>symbol = ''BTC/USDT'', data_type = TICKER, data = ''{}'', latency_ms = 250\<rparr>"

definition fast_trades_update :: MarketUpdate where
  "fast_trades_update =
     \<lparr>symbol = ''ETH/USDT'', data_type = TRADES, data = ''[]'', latency_ms = 200\<rparr>"

text \<open>Kinds of outside effects, to count them in a trace.\<close>

definition is_liquidation :: "event \<Rightarrow> bool" where
  "is_liquidation ev = (case ev of CloseAllPositions r \<Rightarrow> True | _ \<Rightarrow> False)"

definition is_daily_loss_warning :: "event \<Rightarrow> bool" where
  "is_daily_loss_warning ev =
     (case ev of
        Logged lv m \<Rightarrow> lv = WARNING \<and> (case m of HighDailyLoss x \<Rightarrow> True | _ \<Rightarrow> False)
      | _ \<Rightarrow> False)"

text \<open>
  What the await of the circuit breaker answers in a cycle that read the risk metrics
  \<open>rm\<close>; nothing is awaited unless the drawdown is critical and \<open>close_on_pause\<close> is
  set.
\<close>

definition pause_outcome :: "Env \<Rightarrow> TradingBot \<Rightarrow> RiskMetrics \<Rightarrow> unit result" where
  "pause_outcome e b rm =
     (if current_drawdown rm > 0.20 \<and> get_default False (close_on_pause (config b))
      then close_all_positions e else Returns ())"

text \<open>The outside effects of the drawdown checks of a cycle that read \<open>rm\<close>.\<close>

definition drawdown_events :: "TradingBot \<Rightarrow> RiskMetrics \<Rightarrow> event list" where
  "drawdown_events b rm =
     (if current_drawdown rm > 0.15
      then Logged WARNING (HighDrawdown (current_drawdown rm)) #
           (if current_drawdown rm > 0.20
            then [Logged LERROR CriticalDrawdown, Logged WARNING TradingPaused]
                 @ (if get_default False (close_on_pause (config b))
                    then [CloseAllPositions ''Protection drawdown''] else [])
            else [])
      else [])"

definition env_critical :: Env where
  "env_critical = env0\<lparr>get_risk_metrics := Gives \<lparr>current_drawdown = 0.21, risk_daily_pnl = 0\<rparr>\<rparr>"

definition env_daily_loss :: Env where
  "env_daily_loss = env0\<lparr>get_risk_metrics := Gives \<lparr>current_drawdown = 0, risk_daily_pnl = 0.06\<rparr>\<rparr>"

definition env_liquidation_fails :: Env where
  "env_liquidation_fails =
     env0\<lparr>get_risk_metrics := Gives \<lparr>current_drawdown = 0.21, risk_daily_pnl = 0.06\<rparr>,
          close_all_positions := Raises (Exception ''close failed'')\<rparr>"

text \<open>
  A step that touches the trace only: its result \<open>r\<close> and the effects \<open>l\<close> it appends
  are the same from every bot.
\<close>

definition appends ::
  "(TradingBot \<Rightarrow> 'a result \<times> TradingBot) \<Rightarrow> 'a result \<Rightarrow> event list \<Rightarrow> bool" where
  "appends f r l = (\<forall>b. f b = (r, b\<lparr>trace := trace b @ l\<rparr>))"

text \<open>Effects among which there is no liquidation and no daily-loss warning.\<close>

definition quiet :: "event list \<Rightarrow> bool" where
  "quiet l = list_all (\<lambda>ev. \<not> is_liquidation ev \<and> \<not> is_daily_loss_warning ev) l"

text \<open>The end of a risk monitor cycle, from the read of the positions on, in its handler.\<close>

definition risk_monitor_tail :: "Env \<Rightarrow> TradingBot \<Rightarrow> unit result \<times> TradingBot" where
  "risk_monitor_tail e b =
     try_except
       (then_do (call PositionsRead (positions_items e) b) (\<lambda>ps b4.
        then_do (trailing_stops e ps b4) (\<lambda>_ b5.
        sleep e 30 b5)))
       (\<lambda>ex b1. sleep e 60 (log_error (RiskMonitorError (str ex)) b1))"

text \<open>The same answers, but a risk snapshot that reports no daily loss.\<close>

definition no_daily_loss :: "Env \<Rightarrow> RiskMetrics \<Rightarrow> Env" where
  "no_daily_loss e rm = e\<lparr>get_risk_metrics := Gives (rm\<lparr>risk_daily_pnl := 0\<rparr>)\<rparr>"

text \<open>The call returned.\<close>

fun returns :: "'a result \<Rightarrow> bool" where
  "returns (Returns x) = True"
| "returns (Raises ex) = False"
| "returns CancelledError = False"

text \<open>
  A health check cycle gets past its feed and exchange checks, to the clean-up of the
  errors and the daily reset: the metrics are read, the feed is connected or its
  reconnection returns, the exchange's liveness is read, and the exchange is connected
  or its reconnection returns.
\<close>

definition reaches_cleanup :: "Env \<Rightarrow> bool" where
  "reaches_cleanup e =
     (case get_metrics e of
        Fails ex \<Rightarrow> False
      | Gives ws_metrics \<Rightarrow>
          (connected ws_metrics \<or> returns (feed_connect e))
          \<and> (case exchange_connected e of
                Fails ex \<Rightarrow> False
              | Gives is_connected \<Rightarrow> is_connected \<or> returns (exchange_connect e)))"

text \<open>The feed and exchange checks of a health check cycle, and the rest of the cycle.\<close>

definition health_check_front :: "Env \<Rightarrow> TradingBot \<Rightarrow> bool result \<times> TradingBot" where
  "health_check_front e b =
     then_do (call FeedGetMetrics (get_metrics e) b) (\<lambda>ws_metrics b1.
     then_do (if \<not> connected ws_metrics
              then awaited FeedConnect (feed_connect e) (log_error WebSocketDisconnected b1)
              else (Returns True, b1)) (\<lambda>_ b2.
     then_do (call ExchangeConnected (exchange_connected e)
                (if avg_latency_ms ws_metrics > 200
                 then log_warning (HighAverageLatency (avg_latency_ms ws_metrics)) b2
                 else b2)) (\<lambda>is_connected b3.
     if \<not> is_connected
     then awaited (ExchangeConnect None) (exchange_connect e)
            (log_error ExchangeDisconnected b3)
     else (Returns True, b3))))"

definition health_check_tail :: "Env \<Rightarrow> TradingBot \<Rightarrow> unit result \<times> TradingBot" where
  "health_check_tail e b4 =
     try_except
       (then_do (check_daily_reset e (clean_errors b4)) (\<lambda>_ b5.
        sleep e 60 b5))
       (\<lambda>ex b1. sleep e 60 (log_error (HealthCheckError (str ex)) b1))"

text \<open>The liveness queries and the connect calls, and the daily reset, among the effects.\<close>

definition is_liveness_or_connect :: "event \<Rightarrow> bool" where
  "is_liveness_or_connect ev =
     (case ev of
        FeedGetMetrics \<Rightarrow> True | FeedConnect \<Rightarrow> True
      | ExchangeConnected \<Rightarrow> True | ExchangeConnect c \<Rightarrow> True
      | _ \<Rightarrow> False)"

definition is_reset :: "event \<Rightarrow> bool" where
  "is_reset ev = (case ev of ResetDailyCounters \<Rightarrow> True | _ \<Rightarrow> False)"

definition env_feed_connect_fails :: Env where
  "env_feed_connect_fails =
     env0\<lparr>get_metrics := Gives \<lparr>connected = False, avg_latency_ms = 50\<rparr>,
          feed_connect := Raises (Exception ''connect failed''),
          exchange_connected := Gives False\<rparr>"

definition env_both_down :: Env where
  "env_both_down =
     env0\<lparr>get_metrics := Gives \<lparr>connected = False, avg_latency_ms = 50\<rparr>,
          feed_connect := Returns False,
          exchange_connected := Gives False,
          exchange_connect := Returns False\<rparr>"

text \<open>An exchange that refuses the connection, and the bot after \<open>n\<close> failed \<open>initialize\<close>.\<close>

definition env_init_fail :: Env where
  "env_init_fail = env0\<lparr>exchange_connect := Returns False\<rparr>"

primrec failed_inits :: "nat \<Rightarrow> TradingBot" where
  "failed_inits 0 = bot0"
| "failed_inits (Suc n) = snd (initialize env_init_fail (failed_inits n))"

text \<open>A running bot with 101 recorded errors, the oldest first.\<close>

definition bot_many_errors :: TradingBot where
  "bot_many_errors =
     bot_running\<lparr>status := (status bot_running)
        \<lparr>errors := map (\<lambda>n. ''Strategy: error '' @ replicate n (CHR ''i'')) [0..<101]\<rparr>\<rparr>"

text \<open>
  The cycle made with the answers \<open>e\<close> from the bot \<open>b\<close> invokes the daily reset; and
  the calendar dates at which the cycles of a sequence invoke it, in order.
\<close>

definition invoked_reset :: "Env \<Rightarrow> TradingBot \<Rightarrow> bool" where
  "invoked_reset e b =
     (ResetDailyCounters \<in> set (drop (length (trace b)) (trace (snd (health_check_cycle e b)))))"

fun reset_dates :: "Env list \<Rightarrow> TradingBot \<Rightarrow> int list" where
  "reset_dates [] b = []"
| "reset_dates (e # es) b =
     (if invoked_reset e b then [date (now e)] else [])
     @ reset_dates es (snd (health_check_cycle e b))"

text \<open>The answers of \<open>env0\<close> at the time \<open>t\<close>, and the same with a reset that raises.\<close>

definition env_at :: "datetime \<Rightarrow> Env" where
  "env_at t = env0\<lparr>now := t\<rparr>"

definition env_reset_fails_at :: "datetime \<Rightarrow> Env" where
  "env_reset_fails_at t = env0\<lparr>now := t, reset_daily_counters := Fails (Exception ''reset failed'')\<rparr>"

section \<open>Properties\<close>

subsection \<open>Rewriting through the plumbing\<close>

lemmas log_defs = log_debug_def log_info_def log_warning_def log_error_def

lemma emit_fields [simp]:
  "config (emit ev b) = config b" "status (emit ev b) = status b"
  "has_exchange (emit ev b) = has_exchange b"
  "has_websocket_feed (emit ev b) = has_websocket_feed b"
  "has_pair_manager (emit ev b) = has_pair_manager b"
  "main_task (emit ev b) = main_task b" "shutdown_event (emit ev b) = shutdown_event b"
  "tasks (emit ev b) = tasks b" "last_daily_reset (emit ev b) = last_daily_reset b"
  "trace (emit ev b) = trace b @ [ev]"
  by (simp_all add: emit_def)

lemma set_state_fields [simp]:
  "config (set_state s b) = config b" "status (set_state s b) = (status b)\<lparr>state := s\<rparr>"
  "has_exchange (set_state s b) = has_exchange b"
  "has_websocket_feed (set_state s b) = has_websocket_feed b"
  "has_pair_manager (set_state s b) = has_pair_manager b"
  "main_task (set_state s b) = main_task b" "shutdown_event (set_state s b) = shutdown_event b"
  "tasks (set_state s b) = tasks b" "last_daily_reset (set_state s b) = last_daily_reset b"
  "trace (set_state s b) = trace b"
  by (simp_all add: set_state_def)

lemma then_do_simps [simp]:
  "then_do (Returns x, b) f = f x b"
  "then_do (Raises ex, b) f = (Raises ex, b)"
  "then_do (CancelledError, b) f = (CancelledError, b)"
  "then_do (ret b) g = g () b"
  "then_do (call ev a b) f =
     (case a of Gives x \<Rightarrow> f x (emit ev b) | Fails ex \<Rightarrow> (Raises ex, emit ev b))"
  "then_do (awaited ev r b) f =
     (case r of Returns x \<Rightarrow> f x (emit ev b) | Raises ex \<Rightarrow> (Raises ex, emit ev b)
      | CancelledError \<Rightarrow> (CancelledError, emit ev b))"
  by (simp_all add: then_do_def ret_def call_def awaited_def split: result.splits answer.splits)

lemma try_except_simps [simp]:
  "try_except (Returns x, b) h = (Returns x, b)"
  "try_except (Raises ex, b) h = h ex b"
  "try_except (CancelledError, b) h = (CancelledError, b)"
  "try_except (ret b) h' = ret b"
  "try_except (sleep e d b) h' = sleep e d b"
  by (simp_all add: try_except_def ret_def sleep_def)

lemma save_state_eq:
  "save_state e b =
    (Returns (),
     if \<not> has_pair_manager b then b
     else (case get_positions e of
             Fails ex \<Rightarrow> log_error (SaveStateError (str ex)) (emit GetPositions b)
           | Gives ps \<Rightarrow>
              (case write_file e (make_snapshot e b ps) of
                 Fails ex \<Rightarrow> log_error (SaveStateError (str ex))
                               (emit (WriteSnapshot (make_snapshot e b ps)) (emit GetPositions b))
               | Gives _ \<Rightarrow> log_debug StateSaved
                               (emit (WriteSnapshot (make_snapshot e b ps)) (emit GetPositions b)))))"
  by (simp add: save_state_def save_state_body_def ret_def split: answer.splits)

lemma save_state_returns: "fst (save_state e b) = Returns ()"
  by (simp add: save_state_eq)

lemma save_state_fields [simp]:
  "config (snd (save_state e b)) = config b" "status (snd (save_state e b)) = status b"
  "has_exchange (snd (save_state e b)) = has_exchange b"
  "has_websocket_feed (snd (save_state e b)) = has_websocket_feed b"
  "has_pair_manager (snd (save_state e b)) = has_pair_manager b"
  "main_task (snd (save_state e b)) = main_task b"
  "shutdown_event (snd (save_state e b)) = shutdown_event b"
  "tasks (snd (save_state e b)) = tasks b"
  "last_daily_reset (snd (save_state e b)) = last_daily_reset b"
  by (simp_all add: save_state_eq log_defs split: answer.splits)

lemma then_do_save_state [simp]: "then_do (save_state e b) f = f () (snd (save_state e b))"
  using save_state_returns [of e b] by (cases "save_state e b") simp

lemma save_state_frame_aux: "snd (save_state e b) = b\<lparr>trace := trace (snd (save_state e b))\<rparr>"
  by (rule TradingBot.equality) simp_all

lemma bot_stopped_eq:
  "bot_stopped =
     \<lparr> config = config0, status = status0\<lparr>state := STOPPED\<rparr>, has_exchange = True,
       has_websocket_feed = True, has_pair_manager = True, main_task = False,
       shutdown_event = False, tasks = [], last_daily_reset = None,
       trace = [Logged INFO InitComponents, NewExchange,
                ExchangeConnect (Some (''key'', ''secret'')), NewFeed, FeedConnect,
                NewRiskManager, NewMarketData, NewWatchlistScanner, NewPairManager,
                MarketDataInitialize [''BTC/USDT''],
                FeedSubscribe ''BTC/USDT'' [TICKER, TRADES, ORDERBOOK],
                Logged INFO (SubscribedFeeds 1), Logged INFO InitSuccess] \<rparr>"
  by (simp add: bot_stopped_def initialize_def initialize_body_def
      setup_websocket_subscriptions_def log_defs emit_def set_state_def ret_def
      env0_def bot0_def config0_def)

lemma save_state_case [simp]:
  "(case save_state e b of (Returns u, b1) \<Rightarrow> f u b1 | (Raises ex, b1) \<Rightarrow> g ex b1
      | (CancelledError, b1) \<Rightarrow> h b1) = f () (snd (save_state e b))"
  using save_state_returns [of e b] by (cases "save_state e b") simp

subsection \<open>Persistence failures are absorbed\<close>

lemma performance_tracker_keeps_state:
  "state (status (snd (performance_tracker_cycle e b))) = state (status b)"
  by (cases "get_performance_summary e"; cases "performance_items e")
     (simp_all add: performance_tracker_cycle_def performance_tracker_body_def
      calculate_daily_pnl_def log_defs ret_def Let_def sleep_def)

lemma shutdown_state_stopped:
  "(has_websocket_feed b \<longrightarrow> feed_disconnect e = Returns ())
     \<and> (has_exchange b \<longrightarrow> exchange_close e = Returns ())
   \<longrightarrow> state (status (snd (shutdown e b))) = STOPPED"
  by (simp add: shutdown_def shutdown_body_def log_defs ret_def)

text \<open>
  C10. \<open>_save_state\<close> always returns normally, whatever the pair manager and the file
  system answer and also when the pair manager is absent; it changes no field of the
  bot but the trace of outside effects, so the status register (state, errors and the
  rest) is as before. A performance tracker cycle never changes the lifecycle state,
  and a shutdown whose feed disconnect and exchange close succeed ends \<open>STOPPED\<close>
  whether the snapshot could be written or not.
\<close>

theorem save_state_absorbs_failures:
  "fst (save_state e b) = Returns ()
   \<and> snd (save_state e b) = b\<lparr>trace := trace (snd (save_state e b))\<rparr>
   \<and> status (snd (save_state e b)) = status b
   \<and> state (status (snd (performance_tracker_cycle e b))) = state (status b)
   \<and> ((has_websocket_feed b \<longrightarrow> feed_disconnect e = Returns ())
        \<and> (has_exchange b \<longrightarrow> exchange_close e = Returns ())
       \<longrightarrow> state (status (snd (shutdown e b))) = STOPPED)"
proof -
  have "snd (save_state e b) = b\<lparr>trace := trace (snd (save_state e b))\<rparr>"
    by (rule save_state_frame_aux)
  moreover have "(has_websocket_feed b \<longrightarrow> feed_disconnect e = Returns ())
        \<and> (has_exchange b \<longrightarrow> exchange_close e = Returns ())
       \<longrightarrow> state (status (snd (shutdown e b))) = STOPPED"
    by (rule shutdown_state_stopped)
  ultimately show ?thesis
    by (simp add: save_state_returns performance_tracker_keeps_state)
qed

theorem save_state_absorbs_failures_witness:
  "has_pair_manager bot_stopped
   \<and> get_positions env_positions_fail = Fails (Exception ''positions unavailable'')
   \<and> feed_disconnect env_positions_fail = Returns ()
   \<and> exchange_close env_positions_fail = Returns ()
   \<and> fst (save_state env_positions_fail bot_stopped) = Returns ()
   \<and> state (status (snd (shutdown env_positions_fail bot_stopped))) = STOPPED"
  using save_state_absorbs_failures [of env_positions_fail bot_stopped]
  by (simp add: env_positions_fail_def env0_def bot_stopped_eq)

subsection \<open>Start\<close>

text \<open>
  C5. In a state other than \<open>STOPPED\<close> and \<open>ERROR\<close>, \<open>start\<close> changes nothing of the
  bot (state, status register, main task, live tasks) and records one warning; no task
  is created. From \<open>STOPPED\<close> or \<open>ERROR\<close> the state becomes \<open>RUNNING\<close> and the main
  task is created.
\<close>

theorem start_guard:
  "(state (status b) \<notin> {STOPPED, ERROR}
      \<longrightarrow> start e b = b\<lparr>trace := trace b @ [Logged WARNING (CannotStart (state (status b)))]\<rparr>)
   \<and> (state (status b) \<in> {STOPPED, ERROR}
      \<longrightarrow> state (status (start e b)) = RUNNING \<and> main_task (start e b)
          \<and> trace (start e b) = trace b @ [Logged INFO StartingBot, CreateMainTask])"
  by (simp add: start_def log_defs emit_def)

theorem start_guard_witness:
  "state (status bot0) = INITIALIZING
   \<and> start env0 bot0 = bot0\<lparr>trace := [Logged WARNING (CannotStart INITIALIZING)]\<rparr>
   \<and> state (status (set_state PAUSED bot0)) = PAUSED
   \<and> state (status (start env0 (set_state PAUSED bot0))) = PAUSED
   \<and> tasks (start env0 (set_state PAUSED bot0)) = tasks bot0
   \<and> state (status bot_stopped) = STOPPED
   \<and> state (status (start env0 bot_stopped)) = RUNNING"
  using start_guard [of bot0 env0] start_guard [of "set_state PAUSED bot0" env0]
    start_guard [of bot_stopped env0]
  by (simp add: bot0_def status0_def bot_stopped_eq set_state_def)

subsection \<open>Shutdown, step by step\<close>

lemma at_exchange_cases:
  "shutdown_at_exchange b = (p', b') \<Longrightarrow>
     (shutdown_event b \<longrightarrow> shutdown_event b')
   \<and> (p' = Finished \<longrightarrow> shutdown_event b' \<and> state (status b') \<in> {STOPPED, ERROR})
   \<and> (p' \<noteq> Finished \<longrightarrow> state (status b') = state (status b))
   \<and> pc_rank p' \<le> 1 \<and> p' \<noteq> NotStarted"
  by (auto simp: shutdown_at_exchange_def shutdown_stopped_def log_defs split: if_splits)

lemma at_feed_cases:
  "shutdown_at_feed b = (p', b') \<Longrightarrow>
     (shutdown_event b \<longrightarrow> shutdown_event b')
   \<and> (p' = Finished \<longrightarrow> shutdown_event b' \<and> state (status b') \<in> {STOPPED, ERROR})
   \<and> (p' \<noteq> Finished \<longrightarrow> state (status b') = state (status b))
   \<and> pc_rank p' \<le> 2 \<and> p' \<noteq> NotStarted"
  using at_exchange_cases [of b p' b']
  by (auto simp: shutdown_at_feed_def split: if_splits)

lemma resume_cases:
  assumes "shutdown_resume e p b = (p', b')"
  shows "(p = Finished \<longrightarrow> p' = Finished \<and> b' = b)
   \<and> (shutdown_event b \<longrightarrow> shutdown_event b')
   \<and> (p' = Finished \<and> p \<noteq> Finished \<longrightarrow> shutdown_event b')
   \<and> (p' = Finished \<and> p \<noteq> Finished \<and> uncancelled e \<longrightarrow> state (status b') \<in> {STOPPED, ERROR})
   \<and> (p = NotStarted \<longrightarrow> state (status b') \<in> {STOPPING, STOPPED, ERROR})
   \<and> (state (status b') = state (status b) \<or> state (status b') \<in> {STOPPING, STOPPED, ERROR})
   \<and> pc_rank p' \<le> pc_rank p - 1 \<and> (p \<noteq> Finished \<longrightarrow> p' \<noteq> NotStarted)"
proof (cases p)
  case NotStarted
  then have "shutdown_at_feed (snd (save_state e (set_state STOPPING (log_info ShutdownInProgress b)))) = (p', b')"
    using assms by simp
  from at_feed_cases [OF this] NotStarted show ?thesis by (auto simp: log_defs)
next
  case AwaitDisconnect
  show ?thesis
  proof (cases "feed_disconnect e")
    case (Returns u)
    then have "shutdown_at_exchange b = (p', b')" using assms AwaitDisconnect by simp
    from at_exchange_cases [OF this] AwaitDisconnect show ?thesis by auto
  next
    case (Raises ex)
    then have "shutdown_failed ex b = (p', b')" using assms AwaitDisconnect by simp
    then show ?thesis using AwaitDisconnect by (auto simp: shutdown_failed_def log_defs)
  next
    case CancelledError
    then have "shutdown_cancelled b = (p', b')" using assms AwaitDisconnect by simp
    then show ?thesis using AwaitDisconnect CancelledError
      by (auto simp: shutdown_cancelled_def uncancelled_def)
  qed
next
  case AwaitClose
  show ?thesis
  proof (cases "exchange_close e")
    case (Returns u)
    then have "shutdown_stopped b = (p', b')" using assms AwaitClose by simp
    then show ?thesis using AwaitClose by (auto simp: shutdown_stopped_def log_defs)
  next
    case (Raises ex)
    then have "shutdown_failed ex b = (p', b')" using assms AwaitClose by simp
    then show ?thesis using AwaitClose by (auto simp: shutdown_failed_def log_defs)
  next
    case CancelledError
    then have "shutdown_cancelled b = (p', b')" using assms AwaitClose by simp
    then show ?thesis using AwaitClose CancelledError
      by (auto simp: shutdown_cancelled_def uncancelled_def)
  qed
next
  case Finished
  then show ?thesis using assms by simp
qed

lemma two_inv_first:
  assumes "two_inv (uncancelled e \<and> nc) p1 p2 b" and r: "shutdown_resume e p1 b = (p, b1)"
  shows "two_inv (uncancelled e \<and> nc) p p2 b1"
proof (cases "p1 = Finished")
  case True
  then show ?thesis using assms resume_cases [OF r] by simp
next
  case False
  then show ?thesis using assms(1) resume_cases [OF r] unfolding two_inv_def by auto
qed

lemma two_inv_second:
  assumes "two_inv (nc \<and> uncancelled e) p1 p2 b" and r: "shutdown_resume e p2 b = (p, b1)"
  shows "two_inv (nc \<and> uncancelled e) p1 p b1"
proof (cases "p2 = Finished")
  case True
  then show ?thesis using assms resume_cases [OF r] by simp
next
  case False
  then show ?thesis using assms(1) resume_cases [OF r] unfolding two_inv_def by auto
qed

lemma interleave_inv:
  "two_inv (uncancelled e1 \<and> uncancelled e2) p1 p2 b
   \<Longrightarrow> interleave sched e1 e2 (p1, p2, b) = (q1, q2, b')
   \<Longrightarrow> two_inv (uncancelled e1 \<and> uncancelled e2) q1 q2 b'"
proof (induction sched arbitrary: p1 p2 b)
  case Nil
  then show ?case by simp
next
  case (Cons first sched)
  show ?case
  proof (cases first)
    case True
    obtain p b1 where r: "shutdown_resume e1 p1 b = (p, b1)"
      by (cases "shutdown_resume e1 p1 b") auto
    have "two_inv (uncancelled e1 \<and> uncancelled e2) p p2 b1"
      using two_inv_first [OF Cons.prems(1) r] .
    moreover have "interleave sched e1 e2 (p, p2, b1) = (q1, q2, b')"
      using Cons.prems(2) True r by simp
    ultimately show ?thesis by (rule Cons.IH)
  next
    case False
    obtain p b1 where r: "shutdown_resume e2 p2 b = (p, b1)"
      by (cases "shutdown_resume e2 p2 b") auto
    have "two_inv (uncancelled e1 \<and> uncancelled e2) p1 p b1"
      using two_inv_second [OF Cons.prems(1) r] .
    moreover have "interleave sched e1 e2 (p1, p, b1) = (q1, q2, b')"
      using Cons.prems(2) False r by simp
    ultimately show ?thesis by (rule Cons.IH)
  qed
qed

lemma interleave_progress:
  "pc_rank p1 \<le> length (filter (\<lambda>t. t) sched) \<Longrightarrow> pc_rank p2 \<le> length (filter Not sched)
   \<Longrightarrow> \<exists>b'. interleave sched e1 e2 (p1, p2, b) = (Finished, Finished, b')"
proof (induction sched arbitrary: p1 p2 b)
  case Nil
  have "p1 = Finished" using Nil.prems(1) by (cases p1) simp_all
  moreover have "p2 = Finished" using Nil.prems(2) by (cases p2) simp_all
  ultimately show ?case by simp
next
  case (Cons first sched)
  show ?case
  proof (cases first)
    case True
    obtain p b1 where r: "shutdown_resume e1 p1 b = (p, b1)"
      by (cases "shutdown_resume e1 p1 b") auto
    have "pc_rank p \<le> length (filter (\<lambda>t. t) sched)"
      using resume_cases [OF r] Cons.prems(1) True by (auto simp: id_def)
    moreover have "pc_rank p2 \<le> length (filter Not sched)" using Cons.prems(2) True by simp
    ultimately have "\<exists>b'. interleave sched e1 e2 (p, p2, b1) = (Finished, Finished, b')"
      by (rule Cons.IH)
    then show ?thesis using True r by simp
  next
    case False
    obtain p b1 where r: "shutdown_resume e2 p2 b = (p, b1)"
      by (cases "shutdown_resume e2 p2 b") auto
    have "pc_rank p1 \<le> length (filter (\<lambda>t. t) sched)" using Cons.prems(1) False by simp
    moreover have "pc_rank p \<le> length (filter Not sched)"
      using resume_cases [OF r] Cons.prems(2) False by (auto simp: id_def)
    ultimately have "\<exists>b'. interleave sched e1 e2 (p1, p, b1) = (Finished, Finished, b')"
      by (rule Cons.IH)
    then show ?thesis using False r by simp
  qed
qed

lemma shutdown_eq:
  "shutdown e b =
    (let b1 = snd (save_state e (set_state STOPPING (log_info ShutdownInProgress b)));
         b2 = (if has_websocket_feed b then emit FeedDisconnect b1 else b1);
         b3 = (if has_exchange b then emit ExchangeClose b2 else b2)
     in case disconnect_outcome e b of
          CancelledError \<Rightarrow> (CancelledError, b2\<lparr>shutdown_event := True\<rparr>)
        | Raises ex \<Rightarrow>
            (Returns (), (set_state ERROR (log_error (ShutdownError (str ex)) b2))\<lparr>shutdown_event := True\<rparr>)
        | Returns _ \<Rightarrow>
           (case close_outcome e b of
              CancelledError \<Rightarrow> (CancelledError, b3\<lparr>shutdown_event := True\<rparr>)
            | Raises ex \<Rightarrow>
                (Returns (), (set_state ERROR (log_error (ShutdownError (str ex)) b3))\<lparr>shutdown_event := True\<rparr>)
            | Returns _ \<Rightarrow>
                (Returns (), (log_info StoppedCleanly (set_state STOPPED b3))\<lparr>shutdown_event := True\<rparr>)))"
  by (cases "feed_disconnect e"; cases "exchange_close e")
     (simp_all add: shutdown_def shutdown_body_def disconnect_outcome_def close_outcome_def
        Let_def ret_def log_defs)

lemma shutdown_alone:
  "interleave [True, True, True] e1 e2 (NotStarted, p2, b) = (Finished, p2, snd (shutdown e1 b))"
  by (cases "feed_disconnect e1"; cases "exchange_close e1")
     (simp_all add: shutdown_eq disconnect_outcome_def close_outcome_def shutdown_at_feed_def
        shutdown_at_exchange_def shutdown_stopped_def shutdown_failed_def shutdown_cancelled_def
        Let_def log_defs)

lemma shutdown_snapshot_trace:
  "trace (snd (save_state e (set_state STOPPING (log_info ShutdownInProgress b)))) =
     trace b @ [Logged INFO ShutdownInProgress]
     @ (if has_pair_manager b
        then GetPositions #
          (case get_positions e of
             Fails ex \<Rightarrow> [Logged LERROR (SaveStateError (str ex))]
           | Gives ps \<Rightarrow>
               WriteSnapshot ((make_snapshot e b ps)\<lparr>snap_state := STOPPING\<rparr>) #
               (case write_file e ((make_snapshot e b ps)\<lparr>snap_state := STOPPING\<rparr>) of
                  Fails ex \<Rightarrow> [Logged LERROR (SaveStateError (str ex))]
                | Gives u \<Rightarrow> [Logged DEBUG StateSaved]))
        else [])"
proof -
  have m: "\<And>ps ev. make_snapshot e (set_state STOPPING (emit ev b)) ps
             = (make_snapshot e b ps)\<lparr>snap_state := STOPPING\<rparr>"
    by (simp add: make_snapshot_def)
  show ?thesis
    by (simp add: save_state_eq m log_defs split: answer.splits)
qed

lemma shutdown_result_state_trace:
  "shutdown_event (snd (shutdown e b))
   \<and> fst (shutdown e b) =
       (case disconnect_outcome e b of
          CancelledError \<Rightarrow> CancelledError
        | Raises ex \<Rightarrow> Returns ()
        | Returns u \<Rightarrow>
            (case close_outcome e b of
               CancelledError \<Rightarrow> CancelledError
             | Raises ex \<Rightarrow> Returns ()
             | Returns u \<Rightarrow> Returns ()))
   \<and> state (status (snd (shutdown e b))) =
       (case disconnect_outcome e b of
          CancelledError \<Rightarrow> STOPPING
        | Raises ex \<Rightarrow> ERROR
        | Returns u \<Rightarrow>
            (case close_outcome e b of
               CancelledError \<Rightarrow> STOPPING
             | Raises ex \<Rightarrow> ERROR
             | Returns u \<Rightarrow> STOPPED))
   \<and> trace (snd (shutdown e b)) =
       trace (snd (save_state e (set_state STOPPING (log_info ShutdownInProgress b))))
       @ (if has_websocket_feed b then [FeedDisconnect] else [])
       @ (case disconnect_outcome e b of
            CancelledError \<Rightarrow> []
          | Raises ex \<Rightarrow> [Logged LERROR (ShutdownError (str ex))]
          | Returns u \<Rightarrow>
              (if has_exchange b then [ExchangeClose] else [])
              @ (case close_outcome e b of
                   CancelledError \<Rightarrow> []
                 | Raises ex \<Rightarrow> [Logged LERROR (ShutdownError (str ex))]
                 | Returns u \<Rightarrow> [Logged INFO StoppedCleanly]))"
  by (cases "disconnect_outcome e b"; cases "close_outcome e b")
     (simp_all add: shutdown_eq Let_def log_defs)

lemma shutdown_frame:
  "snd (shutdown e b) =
     b\<lparr>status := (status b)\<lparr>state := state (status (snd (shutdown e b)))\<rparr>,
       shutdown_event := True, trace := trace (snd (shutdown e b))\<rparr>"
  by (cases "disconnect_outcome e b"; cases "close_outcome e b")
     (rule TradingBot.equality; simp add: shutdown_eq Let_def log_defs)+

text \<open>
  C3, as the code has it. The effects of an invocation of \<open>shutdown\<close> are, in this
  order: the log line of the start; the persistence step, run with the state already
  \<open>STOPPING\<close> (nothing when no pair manager is set; otherwise the positions are read
  and, if that returns, one snapshot with state \<open>STOPPING\<close> is written; a failure of
  either is logged by \<open>_save_state\<close> and goes no further); the feed disconnect, when a
  feed is set; the exchange close, when an exchange is set and the disconnect returned;
  one final log line, unless an await was cancelled. The state ends \<open>STOPPED\<close> when
  the awaits made return, \<open>ERROR\<close> when the first one that does not return raises an
  exception, and stays \<open>STOPPING\<close> when that one is cancelled; in that last case, and
  only then, \<open>CancelledError\<close> leaves \<open>shutdown\<close>. The completion event is set in
  every case, and nothing else of the bot changes. Run as a coroutine it is the same
  function; two invocations interleaved at their awaits both finish once each has been
  resumed three times, and when both have finished the event is set and the state is
  \<open>STOPPING\<close>, \<open>STOPPED\<close> or \<open>ERROR\<close>, and \<open>STOPPED\<close> or \<open>ERROR\<close> when no await
  of either is cancelled.
\<close>

theorem shutdown_sequence:
  "shutdown_event (snd (shutdown e b))
   \<and> fst (shutdown e b) =
       (case disconnect_outcome e b of
          CancelledError \<Rightarrow> CancelledError
        | Raises ex \<Rightarrow> Returns ()
        | Returns u \<Rightarrow>
            (case close_outcome e b of
               CancelledError \<Rightarrow> CancelledError
             | Raises ex \<Rightarrow> Returns ()
             | Returns u \<Rightarrow> Returns ()))
   \<and> state (status (snd (shutdown e b))) =
       (case disconnect_outcome e b of
          CancelledError \<Rightarrow> STOPPING
        | Raises ex \<Rightarrow> ERROR
        | Returns u \<Rightarrow>
            (case close_outcome e b of
               CancelledError \<Rightarrow> STOPPING
             | Raises ex \<Rightarrow> ERROR
             | Returns u \<Rightarrow> STOPPED))
   \<and> trace (snd (shutdown e b)) =
       trace b @ [Logged INFO ShutdownInProgress]
       @ (if has_pair_manager b
          then GetPositions #
            (case get_positions e of
               Fails ex \<Rightarrow> [Logged LERROR (SaveStateError (str ex))]
             | Gives ps \<Rightarrow>
                 WriteSnapshot ((make_snapshot e b ps)\<lparr>snap_state := STOPPING\<rparr>) #
                 (case write_file e ((make_snapshot e b ps)\<lparr>snap_state := STOPPING\<rparr>) of
                    Fails ex \<Rightarrow> [Logged LERROR (SaveStateError (str ex))]
                  | Gives u \<Rightarrow> [Logged DEBUG StateSaved]))
          else [])
       @ (if has_websocket_feed b then [FeedDisconnect] else [])
       @ (case disconnect_outcome e b of
            CancelledError \<Rightarrow> []
          | Raises ex \<Rightarrow> [Logged LERROR (ShutdownError (str ex))]
          | Returns u \<Rightarrow>
              (if has_exchange b then [ExchangeClose] else [])
              @ (case close_outcome e b of
                   CancelledError \<Rightarrow> []
                 | Raises ex \<Rightarrow> [Logged LERROR (ShutdownError (str ex))]
                 | Returns u \<Rightarrow> [Logged INFO StoppedCleanly]))
   \<and> snd (shutdown e b) =
       b\<lparr>status := (status b)\<lparr>state := state (status (snd (shutdown e b)))\<rparr>,
         shutdown_event := True, trace := trace (snd (shutdown e b))\<rparr>
   \<and> interleave [True, True, True] e e2 (NotStarted, p2, b) = (Finished, p2, snd (shutdown e b))
   \<and> (3 \<le> length (filter (\<lambda>t. t) sched) \<and> 3 \<le> length (filter Not sched)
        \<longrightarrow> (\<exists>b'. interleave sched e e2 (NotStarted, NotStarted, b) = (Finished, Finished, b')))
   \<and> (interleave sched e e2 (NotStarted, NotStarted, b) = (Finished, Finished, b')
        \<longrightarrow> shutdown_event b' \<and> state (status b') \<in> {STOPPING, STOPPED, ERROR}
            \<and> (uncancelled e \<and> uncancelled e2 \<longrightarrow> state (status b') \<in> {STOPPED, ERROR}))"
proof -
  have prog: "3 \<le> length (filter (\<lambda>t. t) sched) \<and> 3 \<le> length (filter Not sched)
        \<longrightarrow> (\<exists>b'. interleave sched e e2 (NotStarted, NotStarted, b) = (Finished, Finished, b'))"
    using interleave_progress [of NotStarted sched NotStarted e e2 b] by simp
  have inv: "interleave sched e e2 (NotStarted, NotStarted, b) = (Finished, Finished, b')
        \<longrightarrow> shutdown_event b' \<and> state (status b') \<in> {STOPPING, STOPPED, ERROR}
            \<and> (uncancelled e \<and> uncancelled e2 \<longrightarrow> state (status b') \<in> {STOPPED, ERROR})"
  proof
    assume r: "interleave sched e e2 (NotStarted, NotStarted, b) = (Finished, Finished, b')"
    have "two_inv (uncancelled e \<and> uncancelled e2) NotStarted NotStarted b"
      by (simp add: two_inv_def)
    from interleave_inv [OF this r]
    show "shutdown_event b' \<and> state (status b') \<in> {STOPPING, STOPPED, ERROR}
            \<and> (uncancelled e \<and> uncancelled e2 \<longrightarrow> state (status b') \<in> {STOPPED, ERROR})"
      by (simp add: two_inv_def)
  qed
  have tr: "trace (snd (shutdown e b)) =
       trace b @ [Logged INFO ShutdownInProgress]
       @ (if has_pair_manager b
          then GetPositions #
            (case get_positions e of
               Fails ex \<Rightarrow> [Logged LERROR (SaveStateError (str ex))]
             | Gives ps \<Rightarrow>
                 WriteSnapshot ((make_snapshot e b ps)\<lparr>snap_state := STOPPING\<rparr>) #
                 (case write_file e ((make_snapshot e b ps)\<lparr>snap_state := STOPPING\<rparr>) of
                    Fails ex \<Rightarrow> [Logged LERROR (SaveStateError (str ex))]
                  | Gives u \<Rightarrow> [Logged DEBUG StateSaved]))
          else [])
       @ (if has_websocket_feed b then [FeedDisconnect] else [])
       @ (case disconnect_outcome e b of
            CancelledError \<Rightarrow> []
          | Raises ex \<Rightarrow> [Logged LERROR (ShutdownError (str ex))]
          | Returns u \<Rightarrow>
              (if has_exchange b then [ExchangeClose] else [])
              @ (case close_outcome e b of
                   CancelledError \<Rightarrow> []
                 | Raises ex \<Rightarrow> [Logged LERROR (ShutdownError (str ex))]
                 | Returns u \<Rightarrow> [Logged INFO StoppedCleanly]))"
    using shutdown_result_state_trace [of e b] shutdown_snapshot_trace [of e b]
    by (simp only: append_assoc)
  show ?thesis
    using shutdown_result_state_trace [of e b] tr shutdown_frame [of e b]
      shutdown_alone [of e e2 p2 b] prog inv
    by blast
qed

theorem shutdown_sequence_witness:
  "drop (length (trace bot_stopped)) (trace (snd (shutdown env0 bot_stopped)))
       = [Logged INFO ShutdownInProgress, GetPositions,
          WriteSnapshot \<lparr>snap_timestamp = 0, snap_state = STOPPING, snap_total_trades = 0,
            snap_open_positions = 0, snap_total_pnl = 0, snap_daily_pnl = 0,
            snap_positions = ''{}'', snap_errors = []\<rparr>,
          Logged DEBUG StateSaved, FeedDisconnect, ExchangeClose, Logged INFO StoppedCleanly]
   \<and> state (status (snd (shutdown env0 bot_stopped))) = STOPPED
   \<and> fst (shutdown env0 bot_stopped) = Returns ()
   \<and> exchange_close env_close_fail = Raises (Exception ''close failed'')
   \<and> state (status (snd (shutdown env_close_fail bot_stopped))) = ERROR
   \<and> shutdown_event (snd (shutdown env_close_fail bot_stopped))
   \<and> uncancelled env0 \<and> uncancelled env_close_fail
   \<and> fst (interleave [True, False, False, True, True, False] env0 env_close_fail
            (NotStarted, NotStarted, bot_stopped)) = Finished
   \<and> fst (snd (interleave [True, False, False, True, True, False] env0 env_close_fail
            (NotStarted, NotStarted, bot_stopped))) = Finished
   \<and> shutdown_event (snd (snd (interleave [True, False, False, True, True, False] env0
            env_close_fail (NotStarted, NotStarted, bot_stopped))))
   \<and> state (status (snd (snd (interleave [True, False, False, True, True, False] env0
            env_close_fail (NotStarted, NotStarted, bot_stopped))))) \<in> {STOPPED, ERROR}"
proof -
  let ?sched = "[True, False, False, True, True, False]"
  let ?r = "interleave ?sched env0 env_close_fail (NotStarted, NotStarted, bot_stopped)"
  have e0: "disconnect_outcome env0 bot_stopped = Returns ()"
           "close_outcome env0 bot_stopped = Returns ()"
    by (simp_all add: disconnect_outcome_def close_outcome_def env0_def bot_stopped_eq)
  have a: "state (status (snd (shutdown env0 bot_stopped))) = STOPPED
           \<and> fst (shutdown env0 bot_stopped) = Returns ()"
    using shutdown_sequence [of env0 bot_stopped] e0 by simp
  have t: "drop (length (trace bot_stopped)) (trace (snd (shutdown env0 bot_stopped)))
       = [Logged INFO ShutdownInProgress, GetPositions,
          WriteSnapshot \<lparr>snap_timestamp = 0, snap_state = STOPPING, snap_total_trades = 0,
            snap_open_positions = 0, snap_total_pnl = 0, snap_daily_pnl = 0,
            snap_positions = ''{}'', snap_errors = []\<rparr>,
          Logged DEBUG StateSaved, FeedDisconnect, ExchangeClose, Logged INFO StoppedCleanly]"
  proof -
    have "trace (snd (shutdown env0 bot_stopped)) = trace bot_stopped
       @ [Logged INFO ShutdownInProgress, GetPositions,
          WriteSnapshot \<lparr>snap_timestamp = 0, snap_state = STOPPING, snap_total_trades = 0,
            snap_open_positions = 0, snap_total_pnl = 0, snap_daily_pnl = 0,
            snap_positions = ''{}'', snap_errors = []\<rparr>,
          Logged DEBUG StateSaved, FeedDisconnect, ExchangeClose, Logged INFO StoppedCleanly]"
      using shutdown_sequence [of env0 bot_stopped] e0
      by (simp add: env0_def bot_stopped_eq make_snapshot_def last_n_def status0_def)
    then show ?thesis by simp
  qed
  have b: "exchange_close env_close_fail = Raises (Exception ''close failed'')"
    by (simp add: env_close_fail_def env0_def)
  have e1: "disconnect_outcome env_close_fail bot_stopped = Returns ()"
           "close_outcome env_close_fail bot_stopped = Raises (Exception ''close failed'')"
    by (simp_all add: disconnect_outcome_def close_outcome_def env_close_fail_def env0_def
        bot_stopped_eq)
  have c: "state (status (snd (shutdown env_close_fail bot_stopped))) = ERROR
           \<and> shutdown_event (snd (shutdown env_close_fail bot_stopped))"
    using shutdown_sequence [of env_close_fail bot_stopped] e1 by simp
  have u: "uncancelled env0 \<and> uncancelled env_close_fail"
    by (simp add: uncancelled_def env_close_fail_def env0_def)
  have "\<exists>b'. ?r = (Finished, Finished, b')"
    using shutdown_sequence [of env0 bot_stopped env_close_fail NotStarted ?sched] by simp
  then obtain b' where r: "?r = (Finished, Finished, b')" by blast
  have d: "shutdown_event b' \<and> state (status b') \<in> {STOPPED, ERROR}"
    using shutdown_sequence [of env0 bot_stopped env_close_fail NotStarted ?sched b'] r u by blast
  show ?thesis using a b c d t r u by simp
qed

text \<open>
  C3 as stated fails in four places. The snapshot cannot be written: \<open>_save_state\<close>
  logs the error and returns, and the shutdown ends \<open>STOPPED\<close>, not \<open>ERROR\<close>. The
  task is cancelled while the feed disconnects: \<open>CancelledError\<close> leaves \<open>shutdown\<close>,
  the event is set and the state stays \<open>STOPPING\<close>. The disconnect raises: the
  exchange is not closed. No component is set (the bot as constructed): nothing is
  persisted, disconnected or closed.
\<close>

theorem shutdown_counterexample:
  "drop (length (trace bot_stopped)) (trace (snd (shutdown env_write_fail bot_stopped)))
       = [Logged INFO ShutdownInProgress, GetPositions,
          WriteSnapshot \<lparr>snap_timestamp = 0, snap_state = STOPPING, snap_total_trades = 0,
            snap_open_positions = 0, snap_total_pnl = 0, snap_daily_pnl = 0,
            snap_positions = ''{}'', snap_errors = []\<rparr>,
          Logged LERROR (SaveStateError ''disk full''),
          FeedDisconnect, ExchangeClose, Logged INFO StoppedCleanly]
   \<and> state (status (snd (shutdown env_write_fail bot_stopped))) = STOPPED
   \<and> feed_disconnect env_disconnect_cancelled = CancelledError
   \<and> fst (shutdown env_disconnect_cancelled bot_stopped) = CancelledError
   \<and> state (status (snd (shutdown env_disconnect_cancelled bot_stopped))) = STOPPING
   \<and> shutdown_event (snd (shutdown env_disconnect_cancelled bot_stopped))
   \<and> feed_disconnect env_disconnect_fail = Raises (Exception ''disconnect failed'')
   \<and> drop (length (trace bot_stopped)) (trace (snd (shutdown env_disconnect_fail bot_stopped)))
       = [Logged INFO ShutdownInProgress, GetPositions,
          WriteSnapshot \<lparr>snap_timestamp = 0, snap_state = STOPPING, snap_total_trades = 0,
            snap_open_positions = 0, snap_total_pnl = 0, snap_daily_pnl = 0,
            snap_positions = ''{}'', snap_errors = []\<rparr>,
          Logged DEBUG StateSaved, FeedDisconnect,
          Logged LERROR (ShutdownError ''disconnect failed'')]
   \<and> state (status (snd (shutdown env_disconnect_fail bot_stopped))) = ERROR
   \<and> trace (snd (shutdown env0 bot0)) = [Logged INFO ShutdownInProgress, Logged INFO StoppedCleanly]
   \<and> state (status (snd (shutdown env0 bot0))) = STOPPED"
  by (simp add: env_write_fail_def env_disconnect_cancelled_def env_disconnect_fail_def env0_def
      bot_stopped_eq bot0_def shutdown_eq disconnect_outcome_def close_outcome_def
      save_state_eq make_snapshot_def last_n_def status0_def Let_def log_defs emit_def
      set_state_def)

subsection \<open>The market update handler\<close>

text \<open>
  C9, as the code has it. The handler always returns normally. When the cache update
  of the update's data type returns (a trades update needs none), the counter
  \<open>ws_updates\<close> grows by exactly one (from 0 when absent), whatever the latency
  and the data type, and the warning is logged exactly when the latency is above
  200 ms; nothing else of the bot changes and nothing else is done to the outside.
  When the cache update raises, the only effects are the attempted cache update and
  one error log line: no warning, and the status register, counter included, is as
  before.
\<close>

theorem handle_market_update_counts:
  "handle_market_update e u b =
     (Returns (),
      case cache_update_answer e u of
        Gives r \<Rightarrow>
          b\<lparr>status := (status b)\<lparr>metrics := (metrics (status b))
               (''ws_updates'' \<mapsto> get_default 0 (metrics (status b) ''ws_updates'') + 1)\<rparr>,
            trace := trace b @ cache_update_event u
              @ (if latency_ms u > 200
                 then [Logged WARNING (HighLatencyDetected (latency_ms u) (symbol u))]
                 else [])\<rparr>
      | Fails ex \<Rightarrow>
          b\<lparr>trace := trace b @ cache_update_event u
              @ [Logged LERROR (UpdateProcessingError (symbol u) (str ex))]\<rparr>)"
proof (cases "data_type u")
  case TICKER
  then show ?thesis
    by (cases "set_ticker_cache e")
       (simp_all add: handle_market_update_def handle_market_update_body_def
          cache_update_answer_def cache_update_event_def incr_ws_updates_def
          ret_def log_defs emit_def)
next
  case TRADES
  then show ?thesis
    by (simp add: handle_market_update_def handle_market_update_body_def
          cache_update_answer_def cache_update_event_def incr_ws_updates_def
          ret_def log_defs emit_def)
next
  case ORDERBOOK
  then show ?thesis
    by (cases "update_orderbook e")
       (simp_all add: handle_market_update_def handle_market_update_body_def
          cache_update_answer_def cache_update_event_def incr_ws_updates_def
          ret_def log_defs emit_def)
qed

theorem handle_market_update_counts_witness:
  "cache_update_answer env0 slow_orderbook_update = Gives ()
   \<and> metrics (status bot_stopped) ''ws_updates'' = None
   \<and> metrics (status (snd (handle_market_update env0 slow_orderbook_update bot_stopped)))
        ''ws_updates'' = Some 1
   \<and> drop (length (trace bot_stopped))
        (trace (snd (handle_market_update env0 slow_orderbook_update bot_stopped)))
      = [UpdateOrderbook ''BTC/USDT'' ''{}'',
         Logged WARNING (HighLatencyDetected 250 ''BTC/USDT'')]
   \<and> metrics (status (snd (handle_market_update env0 fast_trades_update
        (snd (handle_market_update env0 slow_ticker_update bot_stopped))))) ''ws_updates'' = Some 2
   \<and> drop (length (trace bot_stopped))
        (trace (snd (handle_market_update env0 fast_trades_update
           (snd (handle_market_update env0 slow_ticker_update bot_stopped)))))
      = [SetTickerCache ''BTC/USDT'' ''{}'',
         Logged WARNING (HighLatencyDetected 250 ''BTC/USDT'')]
   \<and> cache_update_answer env_orderbook_fail slow_orderbook_update
        = Fails (Exception ''bad order book'')
   \<and> handle_market_update env_orderbook_fail slow_orderbook_update bot_stopped
      = (Returns (), bot_stopped\<lparr>trace := trace bot_stopped
           @ [UpdateOrderbook ''BTC/USDT'' ''{}'',
              Logged LERROR (UpdateProcessingError ''BTC/USDT'' ''bad order book'')]\<rparr>)"
  using handle_market_update_counts [of env0 slow_orderbook_update bot_stopped]
    handle_market_update_counts [of env0 slow_ticker_update bot_stopped]
    handle_market_update_counts [of env0 fast_trades_update
      "snd (handle_market_update env0 slow_ticker_update bot_stopped)"]
    handle_market_update_counts [of env_orderbook_fail slow_orderbook_update bot_stopped]
  by (simp add: cache_update_answer_def cache_update_event_def env_orderbook_fail_def env0_def
      slow_orderbook_update_def slow_ticker_update_def fast_trades_update_def
      bot_stopped_eq status0_def get_default_def)

text \<open>
  C9 as stated fails for an order-book update whose hook raises: the latency is
  250 ms, no warning is logged and the counter is not incremented.
\<close>

theorem handle_market_update_counterexample:
  "latency_ms slow_orderbook_update = 250
   \<and> update_orderbook env_orderbook_fail = Fails (Exception ''bad order book'')
   \<and> metrics (status bot_stopped) ''ws_updates'' = None
   \<and> metrics (status (snd (handle_market_update env_orderbook_fail slow_orderbook_update bot_stopped)))
        ''ws_updates'' = None
   \<and> drop (length (trace bot_stopped))
        (trace (snd (handle_market_update env_orderbook_fail slow_orderbook_update bot_stopped)))
      = [UpdateOrderbook ''BTC/USDT'' ''{}'',
         Logged LERROR (UpdateProcessingError ''BTC/USDT'' ''bad order book'')]"
  by (simp add: handle_market_update_def handle_market_update_body_def env_orderbook_fail_def
      env0_def slow_orderbook_update_def bot_stopped_eq status0_def log_defs emit_def ret_def)

subsection \<open>The risk monitor cycle\<close>

lemma try_except_then_do:
  "try_except (then_do m f) h =
     (case m of
        (Returns x, b) \<Rightarrow> try_except (f x b) h
      | (Raises ex, b) \<Rightarrow> h ex b
      | (CancelledError, b) \<Rightarrow> (CancelledError, b))"
  by (cases m; cases "fst m") (auto simp: then_do_def try_except_def)

lemma bot_running_eq:
  "bot_running =
     \<lparr> config = config0, status = status0\<lparr>state := RUNNING\<rparr>, has_exchange = True,
       has_websocket_feed = True, has_pair_manager = True, main_task = True,
       shutdown_event = False,
       tasks = [HealthCheck, Performance, RiskMonitor, Strategy, Scanner],
       last_daily_reset = None,
       trace = trace bot_stopped
               @ [Logged INFO StartingBot, CreateMainTask, Logged INFO MainLoopStarted] \<rparr>"
  by (simp add: bot_running_def main_loop_def start_def create_monitored_task_def
      bot_stopped_eq env0_def status0_def log_defs emit_def)

lemma quiet_simps [simp]:
  "quiet []"
  "quiet (ev # l) = (\<not> is_liquidation ev \<and> \<not> is_daily_loss_warning ev \<and> quiet l)"
  "quiet (l @ l') = (quiet l \<and> quiet l')"
  by (simp_all add: quiet_def)

lemma quiet_filter:
  "quiet l \<Longrightarrow> filter is_liquidation l = [] \<and> filter is_daily_loss_warning l = []
     \<and> filter (\<lambda>ev. \<not> is_daily_loss_warning ev) l = l"
  by (induction l) simp_all

lemma event_kinds [simp]:
  "\<not> is_liquidation (Logged lv m)" "\<not> is_liquidation (FeedGetTicker s)"
  "\<not> is_liquidation (UpdateTrailingStop s p)" "\<not> is_liquidation (SetStopLoss s p)"
  "\<not> is_liquidation PositionsRead" "\<not> is_liquidation (Sleep d)"
  "\<not> is_liquidation (GetRiskMetrics c)" "is_liquidation (CloseAllPositions r)"
  "\<not> is_daily_loss_warning (FeedGetTicker s)"
  "\<not> is_daily_loss_warning (UpdateTrailingStop s p)" "\<not> is_daily_loss_warning (SetStopLoss s p)"
  "\<not> is_daily_loss_warning PositionsRead" "\<not> is_daily_loss_warning (Sleep d)"
  "\<not> is_daily_loss_warning (GetRiskMetrics c)" "\<not> is_daily_loss_warning (CloseAllPositions r)"
  "\<not> is_daily_loss_warning (Logged DEBUG m)" "\<not> is_daily_loss_warning (Logged LERROR m)"
  "\<not> is_daily_loss_warning (Logged INFO m)"
  "\<not> is_daily_loss_warning (Logged WARNING (HighDrawdown x))"
  "\<not> is_daily_loss_warning (Logged WARNING TradingPaused)"
  "is_daily_loss_warning (Logged WARNING (HighDailyLoss x))"
  by (simp_all add: is_liquidation_def is_daily_loss_warning_def)

text \<open>
  The trailing stops touch the trace only, and what they append does not depend on
  the bot.
\<close>

lemma trailing_stops_appends: "\<exists>r l. appends (trailing_stops e ps) r l \<and> quiet l"
proof (induction ps)
  case Nil
  have "appends (trailing_stops e []) (Returns ()) []"
    by (simp add: appends_def ret_def)
  then show ?case using quiet_simps(1) by blast
next
  case (Cons s ss)
  then obtain r l where a: "appends (trailing_stops e ss) r l" and q: "quiet l" by blast
  have t: "\<And>b. trailing_stops e ss b = (r, b\<lparr>trace := trace b @ l\<rparr>)"
    using a by (simp add: appends_def)
  show ?case
  proof (cases "get_ticker e s")
    case (Fails ex)
    then have "appends (trailing_stops e (s # ss)) (Raises ex) [FeedGetTicker s]"
      by (simp add: appends_def emit_def)
    moreover have "quiet [FeedGetTicker s]" by simp
    ultimately show ?thesis by blast
  next
    case (Gives ticker)
    show ?thesis
    proof (cases ticker)
      case None
      then have "appends (trailing_stops e (s # ss)) r (FeedGetTicker s # l)"
        using Gives by (simp add: appends_def t emit_def)
      moreover have "quiet (FeedGetTicker s # l)" using q by simp
      ultimately show ?thesis by blast
    next
      case (Some price)
      show ?thesis
      proof (cases "update_trailing_stop e s price")
        case F: (Fails ex)
        then have "appends (trailing_stops e (s # ss)) (Raises ex)
                     [FeedGetTicker s, UpdateTrailingStop s price]"
          using Gives Some by (simp add: appends_def emit_def)
        moreover have "quiet [FeedGetTicker s, UpdateTrailingStop s price]" by simp
        ultimately show ?thesis by blast
      next
        case G: (Gives new_stop)
        show ?thesis
        proof (cases new_stop)
          case N: None
          then have "appends (trailing_stops e (s # ss)) r
                       (FeedGetTicker s # UpdateTrailingStop s price # l)"
            using Gives Some G by (simp add: appends_def t emit_def)
          moreover have "quiet (FeedGetTicker s # UpdateTrailingStop s price # l)"
            using q by simp
          ultimately show ?thesis by blast
        next
          case S: (Some v)
          show ?thesis
          proof (cases "v = 0")
            case True
            then have "appends (trailing_stops e (s # ss)) r
                       (FeedGetTicker s # UpdateTrailingStop s price # l)"
              using Gives Some G S by (simp add: appends_def t emit_def)
            moreover have "quiet (FeedGetTicker s # UpdateTrailingStop s price # l)"
              using q by simp
            ultimately show ?thesis by blast
          next
            case False
            then have "appends (trailing_stops e (s # ss)) r
                       (FeedGetTicker s # UpdateTrailingStop s price
                         # SetStopLoss s v # Logged DEBUG (TrailingStopUpdated s v) # l)"
              using Gives Some G S by (simp add: appends_def t emit_def log_defs)
            moreover have "quiet (FeedGetTicker s # UpdateTrailingStop s price
                         # SetStopLoss s v # Logged DEBUG (TrailingStopUpdated s v) # l)"
              using q by simp
            ultimately show ?thesis by blast
          qed
        qed
      qed
    qed
  qed
qed

lemma risk_monitor_tail_appends:
  "\<exists>r l. appends (risk_monitor_tail e) r l \<and> quiet l \<and> r \<noteq> Raises ex
         \<and> (positions_items e = Gives [] \<and> \<not> sleep_cancelled e
              \<longrightarrow> r = Returns () \<and> l = [PositionsRead, Sleep 30])"
proof (cases "positions_items e")
  case (Fails ex')
  have "appends (risk_monitor_tail e) (if sleep_cancelled e then CancelledError else Returns ())
          [PositionsRead, Logged LERROR (RiskMonitorError (str ex')), Sleep 60]"
    using Fails by (simp add: appends_def risk_monitor_tail_def sleep_def log_defs emit_def)
  moreover have "quiet [PositionsRead, Logged LERROR (RiskMonitorError (str ex')), Sleep 60]"
    by simp
  moreover have "(if sleep_cancelled e then CancelledError else Returns ()) \<noteq> Raises ex" by simp
  moreover have "\<not> (positions_items e = Gives [] \<and> \<not> sleep_cancelled e)"
    using Fails by simp
  ultimately show ?thesis by blast
next
  case (Gives ps)
  obtain r l where a: "appends (trailing_stops e ps) r l" and q: "quiet l"
    using trailing_stops_appends [of e ps] by blast
  have t: "\<And>b. trailing_stops e ps b = (r, b\<lparr>trace := trace b @ l\<rparr>)"
    using a by (simp add: appends_def)
  have nil: "ps = [] \<Longrightarrow> r = Returns () \<and> l = []"
  proof -
    assume "ps = []"
    then have "(r, bot0\<lparr>trace := trace bot0 @ l\<rparr>) = (Returns (), bot0)"
      using t [of bot0] by (simp add: ret_def)
    then have "r = Returns ()" and "trace (bot0\<lparr>trace := trace bot0 @ l\<rparr>) = trace bot0"
      by simp_all
    then show ?thesis by simp
  qed
  show ?thesis
  proof (cases r)
    case (Returns u)
    have "appends (risk_monitor_tail e) (if sleep_cancelled e then CancelledError else Returns ())
            (PositionsRead # l @ [Sleep 30])"
      using Gives Returns by (simp add: appends_def risk_monitor_tail_def t sleep_def emit_def)
    moreover have "quiet (PositionsRead # l @ [Sleep 30])" using q by simp
    moreover have "(if sleep_cancelled e then CancelledError else Returns ()) \<noteq> Raises ex" by simp
    moreover have "positions_items e = Gives [] \<and> \<not> sleep_cancelled e
              \<longrightarrow> (if sleep_cancelled e then CancelledError else Returns ()) = Returns ()
                  \<and> PositionsRead # l @ [Sleep 30] = [PositionsRead, Sleep 30]"
      using Gives nil by simp
    ultimately show ?thesis by blast
  next
    case (Raises ex')
    have "appends (risk_monitor_tail e) (if sleep_cancelled e then CancelledError else Returns ())
            (PositionsRead # l @ [Logged LERROR (RiskMonitorError (str ex')), Sleep 60])"
      using Gives Raises
      by (simp add: appends_def risk_monitor_tail_def t sleep_def emit_def log_defs)
    moreover have "quiet (PositionsRead # l @ [Logged LERROR (RiskMonitorError (str ex')), Sleep 60])"
      using q by simp
    moreover have "(if sleep_cancelled e then CancelledError else Returns ()) \<noteq> Raises ex" by simp
    moreover have "\<not> (positions_items e = Gives [] \<and> \<not> sleep_cancelled e)"
      using Gives nil Raises by auto
    ultimately show ?thesis by blast
  next
    case CancelledError
    have "appends (risk_monitor_tail e) CancelledError (PositionsRead # l)"
      using Gives CancelledError by (simp add: appends_def risk_monitor_tail_def t emit_def)
    moreover have "quiet (PositionsRead # l)" using q by simp
    moreover have "\<not> (positions_items e = Gives [] \<and> \<not> sleep_cancelled e)"
      using Gives nil CancelledError by auto
    ultimately show ?thesis by blast
  qed
qed

lemma risk_monitor_cycle_unfold:
  "risk_monitor_cycle e b =
     (case get_risk_metrics e of
        Fails ex \<Rightarrow>
          sleep e 60 (log_error (RiskMonitorError (str ex))
            (emit (GetRiskMetrics (initial_balance (config b))) b))
      | Gives rm \<Rightarrow>
          (case (if current_drawdown rm > 0.15
                 then (let b2 = log_warning (HighDrawdown (current_drawdown rm))
                                  (emit (GetRiskMetrics (initial_balance (config b))) b)
                       in if current_drawdown rm > 0.20
                          then pause_trading e (log_error CriticalDrawdown b2)
                          else ret b2)
                 else ret (emit (GetRiskMetrics (initial_balance (config b))) b)) of
             (Returns u, b3) \<Rightarrow>
               risk_monitor_tail e
                 (if risk_daily_pnl rm > 0.05
                  then log_warning (HighDailyLoss (risk_daily_pnl rm)) b3 else b3)
           | (Raises ex, b3) \<Rightarrow> sleep e 60 (log_error (RiskMonitorError (str ex)) b3)
           | (CancelledError, b3) \<Rightarrow> (CancelledError, b3)))"
  by (cases "get_risk_metrics e")
     (simp_all only: risk_monitor_cycle_def risk_monitor_body_def risk_monitor_tail_def
        try_except_then_do call_def answer.case result.case prod.case)

lemma risk_monitor_cycle_nf:
  assumes gm: "get_risk_metrics e = Gives rm"
    and a: "appends (risk_monitor_tail e) r l"
  shows "risk_monitor_cycle e b =
       (case pause_outcome e b rm of
          CancelledError \<Rightarrow>
            (CancelledError,
             b\<lparr>status := (if current_drawdown rm > 0.20 then (status b)\<lparr>state := PAUSED\<rparr>
                           else status b),
               trace := trace b @ GetRiskMetrics (initial_balance (config b))
                          # drawdown_events b rm\<rparr>)
        | Raises ex \<Rightarrow>
            (if sleep_cancelled e then CancelledError else Returns (),
             b\<lparr>status := (if current_drawdown rm > 0.20 then (status b)\<lparr>state := PAUSED\<rparr>
                           else status b),
               trace := trace b @ GetRiskMetrics (initial_balance (config b))
                          # drawdown_events b rm
                          @ [Logged LERROR (RiskMonitorError (str ex)), Sleep 60]\<rparr>)
        | Returns u \<Rightarrow>
            (r,
             b\<lparr>status := (if current_drawdown rm > 0.20 then (status b)\<lparr>state := PAUSED\<rparr>
                           else status b),
               trace := trace b @ GetRiskMetrics (initial_balance (config b))
                          # drawdown_events b rm
                          @ (if risk_daily_pnl rm > 0.05
                             then [Logged WARNING (HighDailyLoss (risk_daily_pnl rm))] else [])
                          @ l\<rparr>))"
proof -
  define crit high loss where
    defs: "crit = (current_drawdown rm > 0.20)" "high = (current_drawdown rm > 0.15)"
          "loss = (risk_daily_pnl rm > 0.05)"
  have imp: "crit \<longrightarrow> high" unfolding defs by simp
  have t: "\<And>b. risk_monitor_tail e b = (r, b\<lparr>trace := trace b @ l\<rparr>)"
    using a by (simp add: appends_def)
  show ?thesis
    unfolding risk_monitor_cycle_unfold pause_outcome_def drawdown_events_def gm answer.case
      defs [symmetric]
    using imp
    by (cases crit; cases high; cases loss;
        cases "get_default False (close_on_pause (config b))"; cases "close_all_positions e")
       (simp_all add: pause_trading_def t sleep_def awaited_def ret_def Let_def
          log_defs emit_def set_state_def)
qed

lemma trailing_stops_no_daily_loss:
  "trailing_stops (no_daily_loss e rm) ps b = trailing_stops e ps b"
  by (induction ps arbitrary: b)
     (simp_all add: no_daily_loss_def split: answer.splits option.splits)

lemma risk_monitor_tail_no_daily_loss:
  "risk_monitor_tail (no_daily_loss e rm) = risk_monitor_tail e"
  by (rule ext)
     (simp add: risk_monitor_tail_def trailing_stops_no_daily_loss sleep_def,
      simp add: no_daily_loss_def)








lemma no_daily_loss_fields [simp]:
  "get_risk_metrics (no_daily_loss e rm) = Gives (rm\<lparr>risk_daily_pnl := 0\<rparr>)"
  "close_all_positions (no_daily_loss e rm) = close_all_positions e"
  "sleep_cancelled (no_daily_loss e rm) = sleep_cancelled e"
  by (simp_all add: no_daily_loss_def)

lemma risk_monitor_cycle_daily_loss:
  assumes gm: "get_risk_metrics e = Gives rm"
    and a: "appends (risk_monitor_tail e) r l" and q: "quiet l"
  shows "fst (risk_monitor_cycle e b) = fst (risk_monitor_cycle (no_daily_loss e rm) b)
   \<and> (snd (risk_monitor_cycle e b))\<lparr>trace := []\<rparr>
        = (snd (risk_monitor_cycle (no_daily_loss e rm) b))\<lparr>trace := []\<rparr>
   \<and> filter (\<lambda>ev. \<not> is_daily_loss_warning ev)
        (drop (length (trace b)) (trace (snd (risk_monitor_cycle e b))))
       = drop (length (trace b)) (trace (snd (risk_monitor_cycle (no_daily_loss e rm) b)))
   \<and> filter is_daily_loss_warning
        (drop (length (trace b)) (trace (snd (risk_monitor_cycle e b))))
       = (if risk_daily_pnl rm > 0.05 \<and> pause_outcome e b rm = Returns ()
          then [Logged WARNING (HighDailyLoss (risk_daily_pnl rm))] else [])"
proof -
  have gm0: "get_risk_metrics (no_daily_loss e rm) = Gives (rm\<lparr>risk_daily_pnl := 0\<rparr>)"
    by simp
  have a0: "appends (risk_monitor_tail (no_daily_loss e rm)) r l"
    using a by (simp add: risk_monitor_tail_no_daily_loss)
  have po: "pause_outcome (no_daily_loss e rm) b (rm\<lparr>risk_daily_pnl := 0\<rparr>) = pause_outcome e b rm"
    by (simp add: pause_outcome_def)
  have de: "drawdown_events b (rm\<lparr>risk_daily_pnl := 0\<rparr>) = drawdown_events b rm"
    by (simp add: drawdown_events_def)
  have qd: "filter is_daily_loss_warning (drawdown_events b rm) = []
            \<and> filter (\<lambda>ev. \<not> is_daily_loss_warning ev) (drawdown_events b rm)
                = drawdown_events b rm"
    by (simp add: drawdown_events_def)
  note f = quiet_filter [OF q] qd
  show ?thesis
    unfolding risk_monitor_cycle_nf [OF gm a] risk_monitor_cycle_nf [OF gm0 a0] po de
    using f by (cases "pause_outcome e b rm") simp_all
qed

text \<open>
  C6, as the code has it. Take a cycle that read the risk snapshot \<open>rm\<close>, and the
  cycle that would have run had the snapshot reported no daily loss. They end the same
  way and leave the same bot (lifecycle state and every other field), and their
  outside effects are the same, liquidations included, except for daily-loss warnings:
  the daily-loss check changes no state and closes no position. The cycle logs exactly
  one daily-loss warning when the ratio is above 0.05 and the check is reached, that
  is, when the circuit breaker was not awaiting a liquidation that raised or was
  cancelled; it logs none otherwise.
\<close>

theorem daily_loss_warns_only:
  "get_risk_metrics e = Gives rm \<longrightarrow>
     fst (risk_monitor_cycle e b) = fst (risk_monitor_cycle (no_daily_loss e rm) b)
   \<and> (snd (risk_monitor_cycle e b))\<lparr>trace := []\<rparr>
        = (snd (risk_monitor_cycle (no_daily_loss e rm) b))\<lparr>trace := []\<rparr>
   \<and> filter (\<lambda>ev. \<not> is_daily_loss_warning ev)
        (drop (length (trace b)) (trace (snd (risk_monitor_cycle e b))))
       = drop (length (trace b)) (trace (snd (risk_monitor_cycle (no_daily_loss e rm) b)))
   \<and> filter is_daily_loss_warning
        (drop (length (trace b)) (trace (snd (risk_monitor_cycle e b))))
       = (if risk_daily_pnl rm > 0.05 \<and> pause_outcome e b rm = Returns ()
          then [Logged WARNING (HighDailyLoss (risk_daily_pnl rm))] else [])"
proof
  assume gm: "get_risk_metrics e = Gives rm"
  obtain r l where a: "appends (risk_monitor_tail e) r l" and q: "quiet l"
    using risk_monitor_tail_appends [of e] by blast
  show "fst (risk_monitor_cycle e b) = fst (risk_monitor_cycle (no_daily_loss e rm) b)
   \<and> (snd (risk_monitor_cycle e b))\<lparr>trace := []\<rparr>
        = (snd (risk_monitor_cycle (no_daily_loss e rm) b))\<lparr>trace := []\<rparr>
   \<and> filter (\<lambda>ev. \<not> is_daily_loss_warning ev)
        (drop (length (trace b)) (trace (snd (risk_monitor_cycle e b))))
       = drop (length (trace b)) (trace (snd (risk_monitor_cycle (no_daily_loss e rm) b)))
   \<and> filter is_daily_loss_warning
        (drop (length (trace b)) (trace (snd (risk_monitor_cycle e b))))
       = (if risk_daily_pnl rm > 0.05 \<and> pause_outcome e b rm = Returns ()
          then [Logged WARNING (HighDailyLoss (risk_daily_pnl rm))] else [])"
    by (rule risk_monitor_cycle_daily_loss [OF gm a q])
qed

theorem daily_loss_warns_only_witness:
  "get_risk_metrics env_daily_loss = Gives \<lparr>current_drawdown = 0, risk_daily_pnl = 0.06\<rparr>
   \<and> pause_outcome env_daily_loss bot_running \<lparr>current_drawdown = 0, risk_daily_pnl = 0.06\<rparr>
        = Returns ()
   \<and> filter is_daily_loss_warning
        (drop (length (trace bot_running)) (trace (snd (risk_monitor_cycle env_daily_loss bot_running))))
       = [Logged WARNING (HighDailyLoss 0.06)]
   \<and> no_daily_loss env_daily_loss \<lparr>current_drawdown = 0, risk_daily_pnl = 0.06\<rparr> = env0
   \<and> fst (risk_monitor_cycle env_daily_loss bot_running) = fst (risk_monitor_cycle env0 bot_running)
   \<and> (snd (risk_monitor_cycle env_daily_loss bot_running))\<lparr>trace := []\<rparr>
        = (snd (risk_monitor_cycle env0 bot_running))\<lparr>trace := []\<rparr>
   \<and> drop (length (trace bot_running)) (trace (snd (risk_monitor_cycle env_daily_loss bot_running)))
       = [GetRiskMetrics 10000, Logged WARNING (HighDailyLoss 0.06), PositionsRead, Sleep 30]
   \<and> state (status (snd (risk_monitor_cycle env_daily_loss bot_running))) = RUNNING"
proof -
  let ?rm = "\<lparr>current_drawdown = 0, risk_daily_pnl = 0.06\<rparr>"
  have h: "get_risk_metrics env_daily_loss = Gives ?rm"
    by (simp add: env_daily_loss_def env0_def)
  have n: "no_daily_loss env_daily_loss ?rm = env0"
    by (simp add: no_daily_loss_def env_daily_loss_def env0_def)
  have po: "pause_outcome env_daily_loss bot_running ?rm = Returns ()"
    by (simp add: pause_outcome_def)
  note T = daily_loss_warns_only [of env_daily_loss ?rm bot_running]
  have a: "fst (risk_monitor_cycle env_daily_loss bot_running) = fst (risk_monitor_cycle env0 bot_running)
   \<and> (snd (risk_monitor_cycle env_daily_loss bot_running))\<lparr>trace := []\<rparr>
        = (snd (risk_monitor_cycle env0 bot_running))\<lparr>trace := []\<rparr>"
    using T h unfolding n by blast
  have w: "filter is_daily_loss_warning
        (drop (length (trace bot_running)) (trace (snd (risk_monitor_cycle env_daily_loss bot_running))))
       = [Logged WARNING (HighDailyLoss 0.06)]"
    using T h po by simp
  have t: "drop (length (trace bot_running)) (trace (snd (risk_monitor_cycle env_daily_loss bot_running)))
       = [GetRiskMetrics 10000, Logged WARNING (HighDailyLoss 0.06), PositionsRead, Sleep 30]
   \<and> state (status (snd (risk_monitor_cycle env_daily_loss bot_running))) = RUNNING"
    by (simp add: risk_monitor_cycle_def risk_monitor_body_def env_daily_loss_def
      env0_def bot_running_eq bot_stopped_eq config0_def status0_def get_default_def sleep_def
      ret_def Let_def log_defs emit_def)
  show ?thesis using h n po a w t by simp
qed

text \<open>
  C6 as stated fails when the circuit breaker fails first: the snapshot reports a
  drawdown of 0.21 and a daily loss ratio of 0.06, \<open>close_on_pause\<close> is set and the
  liquidation raises. The cycle goes to its handler and no daily-loss warning is
  logged.
\<close>

theorem daily_loss_counterexample:
  "get_risk_metrics env_liquidation_fails
       = Gives \<lparr>current_drawdown = 0.21, risk_daily_pnl = 0.06\<rparr>
   \<and> close_all_positions env_liquidation_fails = Raises (Exception ''close failed'')
   \<and> close_on_pause (config bot_running) = Some True
   \<and> drop (length (trace bot_running))
        (trace (snd (risk_monitor_cycle env_liquidation_fails bot_running)))
       = [GetRiskMetrics 10000, Logged WARNING (HighDrawdown 0.21),
          Logged LERROR CriticalDrawdown, Logged WARNING TradingPaused,
          CloseAllPositions ''Protection drawdown'',
          Logged LERROR (RiskMonitorError ''close failed''), Sleep 60]
   \<and> Logged WARNING (HighDailyLoss 0.06)
        \<notin> set (trace (snd (risk_monitor_cycle env_liquidation_fails bot_running)))"
  by (simp add: risk_monitor_cycle_def risk_monitor_body_def pause_trading_def
      env_liquidation_fails_def env0_def bot_running_eq bot_stopped_eq config0_def status0_def
      get_default_def sleep_def awaited_def ret_def Let_def log_defs emit_def set_state_def)

subsection \<open>The loops while the bot is paused\<close>

text \<open>
  C1. The claim fails on the code. The bot is running with its five loops; a risk
  monitor cycle reads a drawdown of 0.21 and pauses the bot; the shutdown event is not
  set. When the risk monitor, the performance tracker and the health check are next
  resumed, each tests \<open>state == RUNNING\<close>, leaves its loop without running a cycle,
  and its task is discarded; the market scanner, which tests the shutdown event, runs
  its next cycle.
\<close>

theorem paused_loops_end:
  "state (status bot_running) = RUNNING
   \<and> tasks bot_running = [HealthCheck, Performance, RiskMonitor, Strategy, Scanner]
   \<and> state (status (turn RiskMonitor env_critical bot_running)) = PAUSED
   \<and> \<not> shutdown_event (turn RiskMonitor env_critical bot_running)
   \<and> tasks (turn RiskMonitor env_critical bot_running)
       = [HealthCheck, Performance, RiskMonitor, Strategy, Scanner]
   \<and> \<not> alive RiskMonitor (turn RiskMonitor env_critical bot_running)
   \<and> \<not> alive Performance (turn RiskMonitor env_critical bot_running)
   \<and> \<not> alive HealthCheck (turn RiskMonitor env_critical bot_running)
   \<and> alive Scanner (turn RiskMonitor env_critical bot_running)
   \<and> run [(RiskMonitor, env0), (Performance, env0), (HealthCheck, env0), (Scanner, env0)]
        (turn RiskMonitor env_critical bot_running)
       = (turn RiskMonitor env_critical bot_running)
           \<lparr>tasks := [Strategy, Scanner],
            trace := trace (turn RiskMonitor env_critical bot_running)
              @ [Logged DEBUG MarketScanRunning, UpdateWatchlist, MarketDataUpdateAll,
                 Sleep 300]\<rparr>"
proof -
  have t: "turn RiskMonitor env_critical bot_running =
     bot_running\<lparr>status := (status bot_running)\<lparr>state := PAUSED\<rparr>,
       trace := trace bot_running
         @ [GetRiskMetrics 10000, Logged WARNING (HighDrawdown 0.21),
            Logged LERROR CriticalDrawdown, Logged WARNING TradingPaused,
            CloseAllPositions ''Protection drawdown'', PositionsRead, Sleep 30]\<rparr>"
    by (simp add: turn_def risk_monitor_alive_def risk_monitor_cycle_def risk_monitor_body_def
      pause_trading_def env_critical_def
      env0_def bot_running_eq bot_stopped_eq config0_def status0_def get_default_def sleep_def
      awaited_def ret_def Let_def log_defs emit_def set_state_def)
  show ?thesis
    unfolding t
    by (simp add: turn_def monitored_end_def risk_monitor_alive_def
      performance_tracker_alive_def health_check_alive_def market_scanner_alive_def
      market_scanner_cycle_def market_scanner_body_def
      env0_def bot_running_eq bot_stopped_eq config0_def status0_def get_default_def sleep_def
      awaited_def ret_def Let_def log_defs emit_def)
qed

subsection \<open>The health check cycle\<close>

lemma then_do_assoc:
  "then_do (then_do m f) g = then_do m (\<lambda>x b. then_do (f x b) g)"
  by (cases m; cases "fst m") (auto simp: then_do_def)

lemma then_do_if_distrib:
  "then_do (if c then m1 else m2) g = (if c then then_do m1 g else then_do m2 g)"
  by simp

lemma health_check_body_split:
  "health_check_body e b =
     then_do (health_check_front e b) (\<lambda>_ b4.
     then_do (check_daily_reset e (clean_errors b4)) (\<lambda>_ b5.
     sleep e 60 b5))"
  unfolding health_check_body_def health_check_front_def then_do_assoc ..

lemma health_check_cycle_unfold:
  "health_check_cycle e b =
     (case health_check_front e b of
        (Returns u, b4) \<Rightarrow> health_check_tail e b4
      | (Raises ex, b4) \<Rightarrow> sleep e 60 (log_error (HealthCheckError (str ex)) b4)
      | (CancelledError, b4) \<Rightarrow> (CancelledError, b4))"
  unfolding health_check_cycle_def health_check_body_split health_check_tail_def
    try_except_then_do ..

text \<open>
  The feed and exchange checks touch the trace only, and what they append does not
  depend on the bot.
\<close>

lemma health_check_front_uniform:
  "health_check_front e b =
     (fst (health_check_front e bot0),
      b\<lparr>trace := trace b @ trace (snd (health_check_front e bot0))\<rparr>)"
  by (cases "get_metrics e"; cases "feed_connect e"; cases "exchange_connected e";
      cases "exchange_connect e")
     (simp_all add: health_check_front_def awaited_def log_defs emit_def bot0_def)

lemma health_check_front_returns:
  "returns (fst (health_check_front e bot0)) = reaches_cleanup e"
  by (cases "get_metrics e"; cases "feed_connect e"; cases "exchange_connected e";
      cases "exchange_connect e")
     (simp_all add: health_check_front_def reaches_cleanup_def awaited_def)

lemma health_check_front_events:
  "filter is_reset (trace (snd (health_check_front e bot0))) = []
   \<and> filter is_liveness_or_connect (trace (snd (health_check_front e bot0))) =
       FeedGetMetrics #
         (case get_metrics e of
            Fails ex \<Rightarrow> []
          | Gives ws_metrics \<Rightarrow>
              (if connected ws_metrics then [] else [FeedConnect])
              @ (if connected ws_metrics \<or> returns (feed_connect e)
                 then ExchangeConnected #
                   (case exchange_connected e of
                      Fails ex \<Rightarrow> []
                    | Gives is_connected \<Rightarrow>
                        if is_connected then [] else [ExchangeConnect None])
                 else []))"
  by (cases "get_metrics e"; cases "feed_connect e"; cases "exchange_connected e";
      cases "exchange_connect e")
     (simp_all add: health_check_front_def awaited_def log_defs emit_def bot0_def
        is_reset_def is_liveness_or_connect_def)

lemma clean_errors_fields [simp]:
  "trace (clean_errors b) = trace b" "last_daily_reset (clean_errors b) = last_daily_reset b"
  "config (clean_errors b) = config b" "tasks (clean_errors b) = tasks b"
  "shutdown_event (clean_errors b) = shutdown_event b"
  "state (status (clean_errors b)) = state (status b)"
  by (simp_all add: clean_errors_def)

lemma health_check_tail_result:
  "fst (health_check_tail e b) = (if sleep_cancelled e then CancelledError else Returns ())"
  by (cases "last_daily_reset b"; cases "reset_daily_counters e")
     (simp_all add: health_check_tail_def check_daily_reset_def sleep_def ret_def)

lemma health_check_tail_status:
  "status (snd (health_check_tail e b)) = status (clean_errors b)"
  by (cases "last_daily_reset b"; cases "reset_daily_counters e")
     (simp_all add: health_check_tail_def check_daily_reset_def sleep_def ret_def log_defs)

lemma health_check_tail_marker:
  "last_daily_reset (snd (health_check_tail e b)) =
     (case last_daily_reset b of
        None \<Rightarrow> Some (now e)
      | Some t \<Rightarrow>
          if date t < date (now e) \<and> reset_daily_counters e = Gives ()
          then Some (now e) else Some t)"
  by (cases "last_daily_reset b"; cases "reset_daily_counters e")
     (simp_all add: health_check_tail_def check_daily_reset_def sleep_def ret_def log_defs)

lemma health_check_tail_events:
  "take (length (trace b)) (trace (snd (health_check_tail e b))) = trace b
   \<and> filter is_liveness_or_connect (drop (length (trace b)) (trace (snd (health_check_tail e b)))) = []
   \<and> filter is_reset (drop (length (trace b)) (trace (snd (health_check_tail e b)))) =
       (case last_daily_reset b of
          None \<Rightarrow> []
        | Some t \<Rightarrow> if date t < date (now e) then [ResetDailyCounters] else [])"
  by (cases "last_daily_reset b"; cases "reset_daily_counters e")
     (simp_all add: health_check_tail_def check_daily_reset_def sleep_def ret_def log_defs
        emit_def is_reset_def is_liveness_or_connect_def)

lemma health_check_tail_frame:
  "snd (health_check_tail e b) =
     b\<lparr>status := status (clean_errors b),
       last_daily_reset := last_daily_reset (snd (health_check_tail e b)),
       trace := trace (snd (health_check_tail e b))\<rparr>"
  by (cases "last_daily_reset b"; cases "reset_daily_counters e")
     (simp_all add: health_check_tail_def check_daily_reset_def sleep_def ret_def log_defs
        emit_def clean_errors_def)

text \<open>A cycle is its checks followed, when they return, by the rest.\<close>

lemma health_check_cycle_cases:
  "health_check_cycle e b =
     (case fst (health_check_front e bot0) of
        Returns u \<Rightarrow>
          health_check_tail e (b\<lparr>trace := trace b @ trace (snd (health_check_front e bot0))\<rparr>)
      | Raises ex \<Rightarrow>
          (if sleep_cancelled e then CancelledError else Returns (),
           b\<lparr>trace := trace b @ trace (snd (health_check_front e bot0))
                @ [Logged LERROR (HealthCheckError (str ex)), Sleep 60]\<rparr>)
      | CancelledError \<Rightarrow>
          (CancelledError, b\<lparr>trace := trace b @ trace (snd (health_check_front e bot0))\<rparr>))"
  by (subst health_check_cycle_unfold, subst health_check_front_uniform)
     (simp add: sleep_def log_defs emit_def split: result.splits)

lemma health_check_cycle_trace:
  "drop (length (trace b)) (trace (snd (health_check_cycle e b))) =
     trace (snd (health_check_front e bot0))
     @ (case fst (health_check_front e bot0) of
          Returns u \<Rightarrow>
            drop (length (trace (b\<lparr>trace := trace b @ trace (snd (health_check_front e bot0))\<rparr>)))
              (trace (snd (health_check_tail e
                 (b\<lparr>trace := trace b @ trace (snd (health_check_front e bot0))\<rparr>))))
        | Raises ex \<Rightarrow> [Logged LERROR (HealthCheckError (str ex)), Sleep 60]
        | CancelledError \<Rightarrow> [])"
proof (cases "fst (health_check_front e bot0)")
  case (Returns u)
  let ?b' = "b\<lparr>trace := trace b @ trace (snd (health_check_front e bot0))\<rparr>"
  let ?t = "trace (snd (health_check_tail e ?b'))"
  have "take (length (trace ?b')) ?t = trace ?b'"
    using health_check_tail_events [of ?b' e] by blast
  then have "?t = trace ?b' @ drop (length (trace ?b')) ?t"
    by (metis append_take_drop_id)
  moreover have "trace ?b' = trace b @ trace (snd (health_check_front e bot0))" by simp
  ultimately have "?t = trace b
      @ (trace (snd (health_check_front e bot0)) @ drop (length (trace ?b')) ?t)"
    by (metis append_assoc)
  then have "drop (length (trace b)) ?t
      = trace (snd (health_check_front e bot0)) @ drop (length (trace ?b')) ?t"
    by (metis append_eq_conv_conj)
  then show ?thesis using Returns by (simp add: health_check_cycle_cases)
next
  case (Raises ex)
  then show ?thesis by (simp add: health_check_cycle_cases)
next
  case CancelledError
  then show ?thesis by (simp add: health_check_cycle_cases)
qed

text \<open>
  C7, as the code has it. The liveness queries and connect calls of a health check
  cycle are, in this order: the read of the feed's metrics; one call of the feed's
  connect when the metrics were read and report the feed disconnected; then, when the
  metrics were read and the feed is connected or its connect returned, the read of the
  exchange's liveness, followed by one call of the exchange's connect (without
  credentials) when that read returns and reports the exchange disconnected. There is
  no other query and no other connect call in the cycle.
\<close>

theorem health_check_connects:
  "filter is_liveness_or_connect
     (drop (length (trace b)) (trace (snd (health_check_cycle e b)))) =
       FeedGetMetrics #
         (case get_metrics e of
            Fails ex \<Rightarrow> []
          | Gives ws_metrics \<Rightarrow>
              (if connected ws_metrics then [] else [FeedConnect])
              @ (if connected ws_metrics \<or> returns (feed_connect e)
                 then ExchangeConnected #
                   (case exchange_connected e of
                      Fails ex \<Rightarrow> []
                    | Gives is_connected \<Rightarrow>
                        if is_connected then [] else [ExchangeConnect None])
                 else []))"
proof -
  let ?b' = "b\<lparr>trace := trace b @ trace (snd (health_check_front e bot0))\<rparr>"
  have t: "filter is_liveness_or_connect
             (drop (length (trace ?b')) (trace (snd (health_check_tail e ?b')))) = []"
    using health_check_tail_events [of ?b' e] by blast
  have "filter is_liveness_or_connect
          (drop (length (trace b)) (trace (snd (health_check_cycle e b))))
        = filter is_liveness_or_connect (trace (snd (health_check_front e bot0)))"
    unfolding health_check_cycle_trace
    using t by (cases "fst (health_check_front e bot0)") (simp_all add: is_liveness_or_connect_def)
  then show ?thesis using health_check_front_events [of e] by simp
qed

theorem health_check_connects_witness:
  "get_metrics env_both_down = Gives \<lparr>connected = False, avg_latency_ms = 50\<rparr>
   \<and> exchange_connected env_both_down = Gives False
   \<and> filter is_liveness_or_connect
        (drop (length (trace bot_running)) (trace (snd (health_check_cycle env_both_down bot_running))))
       = [FeedGetMetrics, FeedConnect, ExchangeConnected, ExchangeConnect None]
   \<and> get_metrics env0 = Gives \<lparr>connected = True, avg_latency_ms = 50\<rparr>
   \<and> exchange_connected env0 = Gives True
   \<and> filter is_liveness_or_connect
        (drop (length (trace bot_running)) (trace (snd (health_check_cycle env0 bot_running))))
       = [FeedGetMetrics, ExchangeConnected]"
  using health_check_connects [of bot_running env_both_down]
    health_check_connects [of bot_running env0]
  by (simp add: env_both_down_def env0_def)

text \<open>
  C7 as stated fails when the reconnection of the feed raises: the feed reports
  disconnected, its connect is called and raises, and the cycle goes to its handler.
  The exchange, which is disconnected too, is neither queried nor reconnected.
\<close>

theorem health_check_connects_counterexample:
  "get_metrics env_feed_connect_fails = Gives \<lparr>connected = False, avg_latency_ms = 50\<rparr>
   \<and> feed_connect env_feed_connect_fails = Raises (Exception ''connect failed'')
   \<and> exchange_connected env_feed_connect_fails = Gives False
   \<and> drop (length (trace bot_running))
        (trace (snd (health_check_cycle env_feed_connect_fails bot_running)))
       = [FeedGetMetrics, Logged LERROR WebSocketDisconnected, FeedConnect,
          Logged LERROR (HealthCheckError ''connect failed''), Sleep 60]"
  by (simp add: health_check_cycle_def health_check_body_def env_feed_connect_fails_def
      env0_def bot_running_eq bot_stopped_eq sleep_def awaited_def ret_def log_defs emit_def)

subsection \<open>The errors list\<close>

lemma then_do_keeps_errors:
  assumes "errors (status (snd m)) = E"
    and "\<And>x b'. errors (status b') = E \<Longrightarrow> errors (status (snd (f x b'))) = E"
  shows "errors (status (snd (then_do m f))) = E"
  using assms by (cases m; cases "fst m") (auto simp: then_do_def)

lemma call_keeps_errors [simp]:
  "errors (status (snd (call ev a b))) = errors (status b)"
  "errors (status (snd (awaited ev r b))) = errors (status b)"
  "errors (status (snd (ret b))) = errors (status b)"
  by (simp_all add: call_def awaited_def ret_def split: answer.splits)

lemma subscribe_all_keeps_errors:
  "errors (status (snd (subscribe_all e ss b))) = errors (status b)"
proof (induction ss arbitrary: b)
  case Nil
  show ?case by simp
next
  case (Cons s ss)
  show ?case
    by (cases "feed_subscribe e s") (simp_all add: Cons.IH)
qed

lemma initialize_body_keeps_errors:
  "errors (status (snd (initialize_body e b))) = errors (status b)"
  unfolding initialize_body_def setup_websocket_subscriptions_def
  by (intro then_do_keeps_errors)
     (simp_all add: subscribe_all_keeps_errors log_defs)

lemma initialize_errors:
  "errors (status (snd (initialize e b))) =
     errors (status b)
     @ (case fst (initialize_body e b) of
          Returns ok \<Rightarrow> [] | Raises ex \<Rightarrow> [str ex] | CancelledError \<Rightarrow> [])"
proof (cases "initialize_body e b")
  case (Pair r b1)
  then have "errors (status b1) = errors (status b)"
    using initialize_body_keeps_errors [of e b] by simp
  then show ?thesis using Pair
    by (cases r) (simp_all add: initialize_def Let_def log_defs)
qed

lemma initialize_refused:
  "fst (initialize_body env_init_fail b) = Raises (Exception ''Echec de connexion a l exchange'')"
  by (simp add: initialize_body_def env_init_fail_def env0_def)

lemma failed_inits_errors:
  "errors (status (failed_inits n)) = replicate n ''Echec de connexion a l exchange''"
  by (induction n)
     (simp_all add: initialize_errors initialize_refused bot0_def status0_def
        replicate_append_same)

lemma health_check_cycle_status:
  "status (snd (health_check_cycle e b)) =
     (if reaches_cleanup e then status (clean_errors b) else status b)"
  using health_check_front_returns [of e]
  by (cases "fst (health_check_front e bot0)")
     (simp_all add: health_check_cycle_cases health_check_tail_status clean_errors_def)

text \<open>
  C4, as the code has it. An append to the errors list (by a monitored task that ends
  with an exception, by a failed \<open>initialize\<close>) adds one entry at the end and trims
  nothing. The list is trimmed by the health check only: a cycle that gets past its
  feed and exchange checks replaces a list of more than 100 entries by its last 50, in
  their order, and leaves a shorter list as it is; a cycle that does not get there
  leaves the list as it is.
\<close>

theorem errors_trimmed_by_health_check:
  "errors (status (monitored_end t (Failed ex) b))
       = errors (status b) @ [task_name t @ '': '' @ str ex]
   \<and> errors (status (snd (initialize e b))) =
       errors (status b)
       @ (case fst (initialize_body e b) of
            Returns ok \<Rightarrow> [] | Raises ex \<Rightarrow> [str ex] | CancelledError \<Rightarrow> [])
   \<and> errors (status (snd (health_check_cycle e b))) =
       (if reaches_cleanup e \<and> length (errors (status b)) > 100
        then drop (length (errors (status b)) - 50) (errors (status b))
        else errors (status b))
   \<and> (reaches_cleanup e \<and> length (errors (status b)) > 100
        \<longrightarrow> length (errors (status (snd (health_check_cycle e b)))) = 50)"
proof -
  have a: "errors (status (monitored_end t (Failed ex) b))
       = errors (status b) @ [task_name t @ '': '' @ str ex]"
    by (simp add: monitored_end_def Let_def log_defs)
  have h: "errors (status (snd (health_check_cycle e b))) =
       (if reaches_cleanup e \<and> length (errors (status b)) > 100
        then drop (length (errors (status b)) - 50) (errors (status b))
        else errors (status b))"
    by (simp add: health_check_cycle_status clean_errors_def last_n_def)
  have l: "reaches_cleanup e \<and> length (errors (status b)) > 100
        \<longrightarrow> length (errors (status (snd (health_check_cycle e b)))) = 50"
    unfolding h by simp
  show ?thesis using a initialize_errors [of e b] h l by (intro conjI)
qed

theorem errors_trimmed_by_health_check_witness:
  "reaches_cleanup env0
   \<and> length (errors (status bot_many_errors)) = 101
   \<and> errors (status (snd (health_check_cycle env0 bot_many_errors)))
       = map (\<lambda>n. ''Strategy: error '' @ replicate n (CHR ''i'')) [51..<101]
   \<and> length (errors (status (snd (health_check_cycle env0 bot_many_errors)))) = 50
   \<and> errors (status (monitored_end Strategy (Failed (Exception ''boom'')) bot_running))
       = [''Strategy: boom'']"
proof -
  have r: "reaches_cleanup env0" by (simp add: reaches_cleanup_def env0_def)
  have n: "length (errors (status bot_many_errors)) = 101"
    by (simp add: bot_many_errors_def)
  have e: "errors (status (snd (health_check_cycle env0 bot_many_errors)))
       = drop 51 (errors (status bot_many_errors))"
    using errors_trimmed_by_health_check [of Strategy "Exception ''boom''" bot_many_errors env0]
      r n by simp
  have e': "drop 51 (errors (status bot_many_errors))
       = map (\<lambda>n. ''Strategy: error '' @ replicate n (CHR ''i'')) [51..<101]"
    by (simp add: bot_many_errors_def drop_map)
  have l: "length (errors (status (snd (health_check_cycle env0 bot_many_errors)))) = 50"
    using errors_trimmed_by_health_check [of Strategy "Exception ''boom''" bot_many_errors env0]
      r n by simp
  have m: "errors (status (monitored_end Strategy (Failed (Exception ''boom'')) bot_running))
       = [''Strategy: boom'']"
    using errors_trimmed_by_health_check [of Strategy "Exception ''boom''" bot_running env0]
    by (simp add: bot_running_eq status0_def)
  show ?thesis using r n e e' l m by simp
qed

text \<open>
  C4 as stated fails at the appends: after 100 failed calls of \<open>initialize\<close> the list
  has 100 entries, and one more failed call appends the 101st; nothing is trimmed.
\<close>

theorem errors_append_counterexample:
  "length (errors (status (failed_inits 100))) = 100
   \<and> fst (initialize env_init_fail (failed_inits 100)) = Returns False
   \<and> length (errors (status (snd (initialize env_init_fail (failed_inits 100))))) = 101"
proof -
  have r: "\<And>b. fst (initialize env_init_fail b) = Returns False"
  proof -
    fix b
    obtain b1 where "initialize_body env_init_fail b
        = (Raises (Exception ''Echec de connexion a l exchange''), b1)"
      using initialize_refused [of b] by (cases "initialize_body env_init_fail b") simp
    then show "fst (initialize env_init_fail b) = Returns False"
      by (simp add: initialize_def Let_def)
  qed
  have a: "\<And>b. length (errors (status b)) = 100
             \<Longrightarrow> length (errors (status (snd (initialize env_init_fail b)))) = 101"
    by (simp add: initialize_errors initialize_refused)
  have n: "length (errors (status (failed_inits 100))) = 100"
    unfolding failed_inits_errors by (rule length_replicate)
  show ?thesis using n r [of "failed_inits 100"] a [OF n] by (intro conjI)
qed

subsection \<open>The daily reset\<close>

lemma health_check_cycle_resets:
  "filter is_reset (drop (length (trace b)) (trace (snd (health_check_cycle e b)))) =
     (case last_daily_reset b of
        None \<Rightarrow> []
      | Some t \<Rightarrow>
          if reaches_cleanup e \<and> date t < date (now e) then [ResetDailyCounters] else [])"
proof -
  let ?b' = "b\<lparr>trace := trace b @ trace (snd (health_check_front e bot0))\<rparr>"
  have t: "filter is_reset (drop (length (trace ?b')) (trace (snd (health_check_tail e ?b')))) =
       (case last_daily_reset b of
          None \<Rightarrow> []
        | Some t \<Rightarrow> if date t < date (now e) then [ResetDailyCounters] else [])"
    using health_check_tail_events [of ?b' e] by simp
  have f: "filter is_reset (trace (snd (health_check_front e bot0))) = []"
    using health_check_front_events [of e] by blast
  show ?thesis
    unfolding health_check_cycle_trace
    using t f health_check_front_returns [of e]
    by (cases "fst (health_check_front e bot0)")
       (simp_all add: is_reset_def split: option.splits)
qed

lemma health_check_cycle_marker:
  "last_daily_reset (snd (health_check_cycle e b)) =
     (if reaches_cleanup e
      then (case last_daily_reset b of
              None \<Rightarrow> Some (now e)
            | Some t \<Rightarrow>
                if date t < date (now e) \<and> reset_daily_counters e = Gives ()
                then Some (now e) else Some t)
      else last_daily_reset b)"
  using health_check_front_returns [of e]
  by (cases "fst (health_check_front e bot0)")
     (simp_all add: health_check_cycle_cases health_check_tail_marker)

lemma is_reset_mem: "(ResetDailyCounters \<in> set l) = (filter is_reset l \<noteq> [])"
proof -
  have "\<And>ev. is_reset ev = (ev = ResetDailyCounters)"
    by (simp add: is_reset_def split: event.splits)
  then show ?thesis by (induction l) auto
qed

lemma invoked_reset_iff:
  "invoked_reset e b =
     (reaches_cleanup e \<and> (\<exists>t. last_daily_reset b = Some t \<and> date t < date (now e)))"
  unfolding invoked_reset_def is_reset_mem health_check_cycle_resets
  by (cases "last_daily_reset b") simp_all

lemma reset_dates_increase:
  "\<forall>e\<in>set es. reset_daily_counters e = Gives ()
   \<Longrightarrow> sorted_wrt (<) (reset_dates es b)
       \<and> (\<forall>t. last_daily_reset b = Some t \<longrightarrow> (\<forall>d\<in>set (reset_dates es b). date t < d))"
proof (induction es arbitrary: b)
  case Nil
  show ?case by simp
next
  case (Cons e es)
  let ?b' = "snd (health_check_cycle e b)"
  have ok: "reset_daily_counters e = Gives ()" using Cons.prems by simp
  have ih: "sorted_wrt (<) (reset_dates es ?b')
       \<and> (\<forall>t. last_daily_reset ?b' = Some t \<longrightarrow> (\<forall>d\<in>set (reset_dates es ?b'). date t < d))"
    using Cons.IH [of ?b'] Cons.prems by simp
  show ?case
  proof (cases "invoked_reset e b")
    case True
    then obtain t where r: "reaches_cleanup e" and m: "last_daily_reset b = Some t"
      and lt: "date t < date (now e)"
      unfolding invoked_reset_iff by blast
    have m': "last_daily_reset ?b' = Some (now e)"
      by (simp add: health_check_cycle_marker r m lt ok)
    have later: "\<forall>d\<in>set (reset_dates es ?b'). date (now e) < d"
      using ih m' by blast
    have "sorted_wrt (<) (date (now e) # reset_dates es ?b')"
      using ih later by simp
    moreover have "\<forall>d\<in>set (date (now e) # reset_dates es ?b'). date t < d"
      using lt later by auto
    ultimately show ?thesis using True m by simp
  next
    case False
    have keep: "\<And>t. last_daily_reset b = Some t \<Longrightarrow> last_daily_reset ?b' = Some t"
      using False unfolding invoked_reset_iff
      by (auto simp: health_check_cycle_marker)
    show ?thesis using False ih keep by simp
  qed
qed

text \<open>
  C8, as the code has it. In a sequence of health check cycles whose resets all
  return, the dates at which the daily reset is invoked are strictly increasing: it is
  invoked at most once per calendar date. A cycle invokes it at most once, and does so
  exactly when it gets past its feed and exchange checks, a time has been recorded,
  and today's date is later than the date recorded; a cycle that gets there with no
  time recorded records the time without resetting. The time recorded moves to now
  when the reset returns, and stays when the reset raises.
\<close>

theorem daily_reset_once_per_date:
  "((\<forall>e\<in>set es. reset_daily_counters e = Gives ())
      \<longrightarrow> sorted_wrt (<) (reset_dates es b) \<and> distinct (reset_dates es b))
   \<and> filter is_reset (drop (length (trace b)) (trace (snd (health_check_cycle e b)))) =
       (case last_daily_reset b of
          None \<Rightarrow> []
        | Some t \<Rightarrow>
            if reaches_cleanup e \<and> date t < date (now e) then [ResetDailyCounters] else [])
   \<and> last_daily_reset (snd (health_check_cycle e b)) =
       (if reaches_cleanup e
        then (case last_daily_reset b of
                None \<Rightarrow> Some (now e)
              | Some t \<Rightarrow>
                  if date t < date (now e) \<and> reset_daily_counters e = Gives ()
                  then Some (now e) else Some t)
        else last_daily_reset b)"
proof -
  have s: "(\<forall>e\<in>set es. reset_daily_counters e = Gives ())
      \<longrightarrow> sorted_wrt (<) (reset_dates es b) \<and> distinct (reset_dates es b)"
  proof
    assume "\<forall>e\<in>set es. reset_daily_counters e = Gives ()"
    then have "sorted_wrt (<) (reset_dates es b)"
      using reset_dates_increase [of es b] by blast
    then show "sorted_wrt (<) (reset_dates es b) \<and> distinct (reset_dates es b)"
      using strict_sorted_iff by auto
  qed
  show ?thesis
    using s health_check_cycle_resets [of b e] health_check_cycle_marker [of e b]
    by (intro conjI)
qed

theorem daily_reset_once_per_date_witness:
  "reset_daily_counters (env_at 43200) = Gives ()
   \<and> reset_daily_counters (env_at 50000) = Gives ()
   \<and> reset_daily_counters (env_at 129600) = Gives ()
   \<and> reset_daily_counters (env_at 130000) = Gives ()
   \<and> reset_daily_counters (env_at 216000) = Gives ()
   \<and> last_daily_reset bot_running = None
   \<and> reset_dates [env_at 43200, env_at 50000, env_at 129600, env_at 130000, env_at 216000]
        bot_running = [1, 2]
   \<and> sorted_wrt (<)
        (reset_dates [env_at 43200, env_at 50000, env_at 129600, env_at 130000, env_at 216000]
           bot_running)
   \<and> distinct
        (reset_dates [env_at 43200, env_at 50000, env_at 129600, env_at 130000, env_at 216000]
           bot_running)
   \<and> last_daily_reset (snd (health_check_cycle (env_at 43200) bot_running)) = Some 43200
   \<and> filter is_reset (drop (length (trace bot_running))
        (trace (snd (health_check_cycle (env_at 43200) bot_running)))) = []"
proof -
  let ?es = "[env_at 43200, env_at 50000, env_at 129600, env_at 130000, env_at 216000]"
  have g: "reset_daily_counters (env_at 43200) = Gives ()"
          "reset_daily_counters (env_at 50000) = Gives ()"
          "reset_daily_counters (env_at 129600) = Gives ()"
          "reset_daily_counters (env_at 130000) = Gives ()"
          "reset_daily_counters (env_at 216000) = Gives ()"
    by (simp_all add: env_at_def env0_def)
  have r: "\<And>t. reaches_cleanup (env_at t)"
    by (simp add: reaches_cleanup_def env_at_def env0_def)
  have n: "\<And>t. now (env_at t) = t" by (simp add: env_at_def)
  have m: "last_daily_reset bot_running = None" by (simp add: bot_running_eq)
  have d: "reset_dates ?es bot_running = [1, 2]"
    by (simp add: invoked_reset_iff health_check_cycle_marker r n m g date_def)
  have s: "sorted_wrt (<) (reset_dates ?es bot_running) \<and> distinct (reset_dates ?es bot_running)"
    using daily_reset_once_per_date [of ?es bot_running "env_at 43200"] g by simp
  have c: "last_daily_reset (snd (health_check_cycle (env_at 43200) bot_running)) = Some 43200
     \<and> filter is_reset (drop (length (trace bot_running))
        (trace (snd (health_check_cycle (env_at 43200) bot_running)))) = []"
    using daily_reset_once_per_date [of ?es bot_running "env_at 43200"] r n m by simp
  show ?thesis using g m d s c by simp
qed

text \<open>
  C8 as stated fails when the reset raises. A first cycle records a time on day 0. On
  day 1 a cycle invokes the reset, which raises: the time recorded stays on day 0. The
  next cycle, still on day 1, invokes the reset again: twice on the same date.
\<close>

theorem daily_reset_counterexample:
  "date 43200 = 0 \<and> date 129600 = 1 \<and> date 130000 = 1
   \<and> reset_daily_counters (env_reset_fails_at 129600) = Fails (Exception ''reset failed'')
   \<and> invoked_reset (env_reset_fails_at 129600)
        (snd (health_check_cycle (env_at 43200) bot_running))
   \<and> invoked_reset (env_at 130000)
        (snd (health_check_cycle (env_reset_fails_at 129600)
           (snd (health_check_cycle (env_at 43200) bot_running))))
   \<and> reset_dates [env_at 43200, env_reset_fails_at 129600, env_at 130000] bot_running = [1, 1]"
proof -
  have r: "\<And>t. reaches_cleanup (env_at t)" "\<And>t. reaches_cleanup (env_reset_fails_at t)"
    by (simp_all add: reaches_cleanup_def env_at_def env_reset_fails_at_def env0_def)
  have n: "\<And>t. now (env_at t) = t" "\<And>t. now (env_reset_fails_at t) = t"
    by (simp_all add: env_at_def env_reset_fails_at_def)
  have g: "\<And>t. reset_daily_counters (env_at t) = Gives ()"
    "\<And>t. reset_daily_counters (env_reset_fails_at t) = Fails (Exception ''reset failed'')"
    by (simp_all add: env_at_def env_reset_fails_at_def env0_def)
  have m: "last_daily_reset bot_running = None" by (simp add: bot_running_eq)
  show ?thesis
    by (simp add: invoked_reset_iff health_check_cycle_marker r n m g date_def)
qed

end
